theory Spec2Isabelle
  imports Complex_Main "HOL-Library.Word" "HOL-Library.Signed_Division"
begin

section \<open>Values of the RPC layer\<close>

text \<open>
  The budget RPC handlers of the node (the file with \<^verbatim>\<open>budgetToJSON\<close>,
  \<^verbatim>\<open>checkBudgetInputs\<close>, \<^verbatim>\<open>submitbudget\<close>, \<^verbatim>\<open>parseVote\<close>, \<^verbatim>\<open>gmbudgetvote\<close>,
  \<^verbatim>\<open>getnextsuperblock\<close>, \<^verbatim>\<open>getbudgetinfo\<close>, \<^verbatim>\<open>gmbudgetrawvote\<close> and
  \<^verbatim>\<open>GetFinalizedBudgetStatus\<close>) are embedded as HOL functions.

  \<^item> C++ \<^verbatim>\<open>int\<close>, \<^verbatim>\<open>int64_t\<close> and \<^verbatim>\<open>CAmount\<close> values are integers of type \<open>int\<close>. An
    \<^verbatim>\<open>int\<close> has 32 bits: the difference and the sum by which the handlers compute the
    next cycle boundary from a block height are wrapped around to 32 bits (\<open>int32\<close>),
    which is what the node computes when the exact result does not fit. The C++
    remainder \<^verbatim>\<open>%\<close> truncates towards zero and is \<open>smod\<close>.
  \<^item> An exception thrown by a handler is a value \<open>Inl e\<close> of the result; a normal return
    is \<open>Inr v\<close>.
  \<^item> Functions and constants that the handlers call but that are defined in other files
    of the node (the JSON accessors, \<^verbatim>\<open>SanitizeString\<close>, \<^verbatim>\<open>validateURL\<close>,
    the consensus parameters, the budget manager's methods, ...) are fields of an
    environment record, under the name the source calls them by.
\<close>

type_synonym uint256 = "256 word"
type_synonym CScript = "8 word list"
type_synonym CAmount = int

datatype rpc_code =
    RPC_MISC_ERROR
  | RPC_INVALID_PARAMETER
  | RPC_INVALID_ADDRESS_OR_KEY
  | RPC_IN_WARMUP

datatype rpc_error =
    JSONRPCError rpc_code string
  | runtime_error string

datatype UniValue =
    VNULL
  | VSTR string
  | VNUM int
  | VREAL real
  | VBOOL bool
  | VARR "UniValue list"
  | VOBJ "(string \<times> UniValue) list"

record JSONRPCRequest =
  fHelp :: bool
  params :: "UniValue list"

text \<open>\<^verbatim>\<open>params[i]\<close>: indexing a JSON array out of range yields the null value.\<close>

definition params_at :: "UniValue list \<Rightarrow> nat \<Rightarrow> UniValue" where
  "params_at ps i = (if i < length ps then ps ! i else VNULL)"

text \<open>\<^verbatim>\<open>obj.pushKV(key, val)\<close> on an object whose keys are all different from \<open>key\<close>.\<close>

definition pushKV :: "(string \<times> UniValue) list \<Rightarrow> string \<Rightarrow> UniValue \<Rightarrow> (string \<times> UniValue) list" where
  "pushKV obj k v = obj @ [(k, v)]"

subsection \<open>Printing an integer with \<^verbatim>\<open>%d\<close>\<close>

definition digit_char :: "nat \<Rightarrow> char" where
  "digit_char d = ''0123456789'' ! d"

function show_nat :: "nat \<Rightarrow> string" where
  "show_nat n = (if n < 10 then [digit_char n] else show_nat (n div 10) @ [digit_char (n mod 10)])"
  by pat_completeness auto
termination
  by (relation "measure id") auto

declare show_nat.simps [simp del]

definition show_int :: "int \<Rightarrow> string" where
  "show_int i = (if i < 0 then CHR ''-'' # show_nat (nat (- i)) else show_nat (nat i))"

subsection \<open>The range of a 32-bit \<^verbatim>\<open>int\<close>\<close>

text \<open>
  The value a 32-bit two's-complement \<^verbatim>\<open>int\<close> holds for an integer: it wraps around,
  from \<open>2147483647\<close> to \<open>-2147483648\<close>.
\<close>

definition int32 :: "int \<Rightarrow> int" where
  "int32 x = (x + 2147483648) mod 4294967296 - 2147483648"

section \<open>Vote directions: \<^verbatim>\<open>parseVote\<close>\<close>

datatype VoteDirection = VOTE_ABSTAIN | VOTE_YES | VOTE_NO

definition parseVote :: "string \<Rightarrow> rpc_error + VoteDirection" where
  \<open>parseVote strVote =
    (if strVote \<noteq> ''yes'' \<and> strVote \<noteq> ''no''
     then Inl (JSONRPCError RPC_MISC_ERROR (''You can only vote \'yes\' or \'no'' @ [CHR 0x27]))
     else
       let nVote = VOTE_ABSTAIN;
           nVote = (if strVote = ''yes'' then VOTE_YES else nVote);
           nVote = (if strVote = ''no'' then VOTE_NO else nVote)
       in Inr nVote)\<close>

section \<open>Objects of the budget system\<close>

record Consensus_Params =
  nMaxProposalPayments :: int
  nBudgetCycleBlocks :: int

text \<open>
  A budget proposal as the handlers see it: the value each accessor of
  \<^verbatim>\<open>CBudgetProposal\<close> returns. \<^verbatim>\<open>GetRatio\<close> returns a \<^verbatim>\<open>double\<close>, read as the real number
  it denotes; it is only copied into the JSON output.
\<close>

record CBudgetProposal =
  GetName :: string
  GetURL :: string
  GetHash :: uint256
  GetFeeTXHash :: uint256
  GetBlockStart :: int
  GetBlockEnd :: int
  GetTotalPaymentCount :: int
  GetRemainingPaymentCount :: "int \<Rightarrow> int"
  GetPayee :: CScript
  GetRatio :: real
  GetYeas :: int
  GetNays :: int
  GetAbstains :: int
  GetAmount :: CAmount
  IsEstablished :: bool
  IsValid :: bool
  IsInvalidReason :: string
  GetAllotted :: CAmount

text \<open>
  The collateral outpoint of a gamemaster; \<^verbatim>\<open>CTxIn(hash, n)\<close> converts the \<^verbatim>\<open>int\<close> index
  to the unsigned 32-bit index of the outpoint.
\<close>

record COutPoint =
  outpoint_hash :: uint256
  outpoint_n :: nat

record CTxIn =
  prevout :: COutPoint

definition NewCTxIn :: "uint256 \<Rightarrow> int \<Rightarrow> CTxIn" where
  "NewCTxIn hashPrevTx nOut =
     \<lparr> prevout = \<lparr> outpoint_hash = hashPrevTx, outpoint_n = nat (nOut mod 2 ^ 32) \<rparr> \<rparr>"

record CBudgetVote =
  GetVin :: CTxIn
  GetProposalHash :: uint256
  GetDirection :: VoteDirection
  GetTime :: int
  GetVchSig :: "8 word list"

record CGamemaster =
  pubKeyGamemaster :: "8 word list"

record CValidationState =
  GetRejectReason :: string
  GetDebugMessage :: string

section \<open>The environment of the handlers\<close>

text \<open>
  What the handlers read and call that other files define. \<open>validateURL\<close> returns its
  result together with the text it leaves in \<^verbatim>\<open>strErr\<close>; \<open>DecodeBase64\<close> returns the
  bytes together with the flag it leaves in \<^verbatim>\<open>fInvalid\<close>; \<open>ExtractDestination\<close> returns
  the destination it leaves in its second argument. \<open>GetChainTip\<close> is the height of the
  tip (\<open>None\<close> for a null pointer), \<open>Height\<close> is \<^verbatim>\<open>chainActive.Height()\<close>, \<open>GetConsensus\<close>
  is \<^verbatim>\<open>Params().GetConsensus()\<close>, \<open>gamemasterman_Find\<close> is \<^verbatim>\<open>gamemasterman.Find\<close>,
  \<open>IsBlockchainSynced\<close> is the method of \<^verbatim>\<open>g_tiertwo_sync_state\<close>, and
  \<open>GetTotalBudget\<close>, \<open>GetBestHeight\<close>, \<open>FindProposalByName\<close> and
  \<open>GetAllProposalsOrdered\<close> are the queries of the budget manager \<^verbatim>\<open>g_budgetman\<close>.
  \<open>NewProposal\<close> is the constructor of \<^verbatim>\<open>CBudgetProposal\<close>, \<open>IsDIP3Enforced\<close> is the
  method of \<^verbatim>\<open>deterministicGMManager\<close> and \<open>translate\<close> is the translation macro
  \<^verbatim>\<open>_\<close>. A pointer to a wallet is \<open>None\<close> when null and names the wallet otherwise.
\<close>

type_synonym CWallet_ptr = "nat option"

record 'dest budget_env =
  get_str :: "UniValue \<Rightarrow> rpc_error + string"
  get_int :: "UniValue \<Rightarrow> rpc_error + int"
  get_int64 :: "UniValue \<Rightarrow> rpc_error + int"
  get_bool :: "UniValue \<Rightarrow> rpc_error + bool"
  ParseHashV :: "UniValue \<Rightarrow> string \<Rightarrow> rpc_error + uint256"
  AmountFromValue :: "UniValue \<Rightarrow> rpc_error + CAmount"
  ValueFromAmount :: "CAmount \<Rightarrow> UniValue"
  SanitizeString :: "string \<Rightarrow> string"
  validateURL :: "string \<Rightarrow> bool \<times> string"
  DecodeBase64 :: "string \<Rightarrow> 8 word list \<times> bool"
  ToString :: "uint256 \<Rightarrow> string"
  CTxIn_ToString :: "CTxIn \<Rightarrow> string"
  DecodeDestination :: "string \<Rightarrow> 'dest"
  IsValidDestination :: "'dest \<Rightarrow> bool"
  GetScriptForDestination :: "'dest \<Rightarrow> CScript"
  ExtractDestination :: "CScript \<Rightarrow> 'dest"
  EncodeDestination :: "'dest \<Rightarrow> string"
  COIN :: CAmount
  FormatMoney :: "CAmount \<Rightarrow> string"
  CURRENCY_UNIT :: string
  GetConsensus :: Consensus_Params
  GetChainTip :: "int option"
  Height :: int
  IsBlockchainSynced :: bool
  IsDIP3Enforced :: bool
  translate :: "string \<Rightarrow> string"
  GetWalletForJSONRPCRequest :: "JSONRPCRequest \<Rightarrow> CWallet_ptr"
  EnsureWalletIsAvailable :: "CWallet_ptr \<Rightarrow> bool \<Rightarrow> rpc_error + bool"
  EnsureWalletIsUnlocked :: "CWallet_ptr \<Rightarrow> rpc_error + unit"
  gamemasterman_Find :: "COutPoint \<Rightarrow> CGamemaster option"
  GetID :: "8 word list \<Rightarrow> 160 word"
  CheckSignature :: "CBudgetVote \<Rightarrow> 160 word \<Rightarrow> bool"
  NewProposal :: "string \<Rightarrow> string \<Rightarrow> int \<Rightarrow> CScript \<Rightarrow> CAmount \<Rightarrow> int \<Rightarrow> uint256 \<Rightarrow> CBudgetProposal"
  GetTotalBudget :: "int \<Rightarrow> CAmount"
  GetBestHeight :: int
  FindProposalByName :: "string \<Rightarrow> CBudgetProposal option"
  GetAllProposalsOrdered :: "CBudgetProposal list"

section \<open>The next superblock: \<^verbatim>\<open>getnextsuperblock\<close>\<close>

text \<open>
  \<open>strHelp\<close> is the usage text of the command, which the source assembles with
  \<^verbatim>\<open>HelpExampleCli\<close> and \<^verbatim>\<open>HelpExampleRpc\<close>. The local \<^verbatim>\<open>nNext\<close> is a function of the
  two values it is computed from, both of type \<^verbatim>\<open>int\<close>: the remainder of two \<^verbatim>\<open>int\<close>
  values is an \<^verbatim>\<open>int\<close>, the difference and the sum are computed in 32 bits.
\<close>

definition nNext :: "int \<Rightarrow> int \<Rightarrow> int" where
  "nNext nChainHeight nBlocksPerCycle =
     int32 (int32 (nChainHeight - nChainHeight smod nBlocksPerCycle) + nBlocksPerCycle)"

definition getnextsuperblock ::
  "'dest budget_env \<Rightarrow> string \<Rightarrow> JSONRPCRequest \<Rightarrow> rpc_error + UniValue" where
  "getnextsuperblock env strHelp request =
    (if fHelp request \<or> length (params request) \<noteq> 0 then Inl (runtime_error strHelp)
     else
       let nChainHeight = Height env in
       if nChainHeight < 0 then Inr (VSTR ''unknown'')
       else
         let nBlocksPerCycle = nBudgetCycleBlocks (GetConsensus env)
         in Inr (VNUM (nNext nChainHeight nBlocksPerCycle)))"

section \<open>Proposal input validation: \<^verbatim>\<open>checkBudgetInputs\<close>\<close>

text \<open>
  The values \<^verbatim>\<open>checkBudgetInputs\<close> leaves in its six reference parameters when it
  returns; field \<open>out_x\<close> is the final value of the parameter \<^verbatim>\<open>x\<close>.
\<close>

record 'dest budget_inputs =
  out_strProposalName :: string
  out_strURL :: string
  out_nPaymentCount :: int
  out_nBlockStart :: int
  out_address :: 'dest
  out_nAmount :: CAmount

text \<open>
  The local \<^verbatim>\<open>nBlockMin\<close>, as a function of the tip height and the cycle length, both
  of type \<^verbatim>\<open>int\<close>; the difference and the sum are computed in 32 bits.
\<close>

definition nBlockMin :: "int \<Rightarrow> int \<Rightarrow> int" where
  "nBlockMin pHeight budgetCycleBlocks =
     int32 (int32 (pHeight - (pHeight smod budgetCycleBlocks)) + budgetCycleBlocks)"

definition checkBudgetInputs ::
  "'dest budget_env \<Rightarrow> UniValue list \<Rightarrow> rpc_error + 'dest budget_inputs" where
  "checkBudgetInputs env ps =
    (case get_str env (params_at ps 0) of Inl e \<Rightarrow> Inl e | Inr s0 \<Rightarrow>
     let strProposalName = SanitizeString env s0 in
     if length strProposalName > 20
     then Inl (JSONRPCError RPC_INVALID_PARAMETER ''Invalid proposal name, limit of 20 characters.'')
     else
    (case get_str env (params_at ps 1) of Inl e \<Rightarrow> Inl e | Inr s1 \<Rightarrow>
     let strURL = SanitizeString env s1;
         (fValidURL, strErr) = validateURL env strURL in
     if \<not> fValidURL then Inl (JSONRPCError RPC_INVALID_PARAMETER strErr)
     else
    (case get_int env (params_at ps 2) of Inl e \<Rightarrow> Inl e | Inr nPaymentCount \<Rightarrow>
     if nPaymentCount < 1
     then Inl (JSONRPCError RPC_INVALID_PARAMETER ''Invalid payment count, must be more than zero.'')
     else
     let nMaxPayments = nMaxProposalPayments (GetConsensus env) in
     if nPaymentCount > nMaxPayments
     then Inl (JSONRPCError RPC_INVALID_PARAMETER
                (''Invalid payment count, must be <= '' @ show_int nMaxPayments))
     else
    (case GetChainTip env of
       None \<Rightarrow> Inl (JSONRPCError RPC_IN_WARMUP ''Try again after active chain is loaded'')
     | Some pHeight \<Rightarrow>
     let budgetCycleBlocks = nBudgetCycleBlocks (GetConsensus env) in
    (case get_int env (params_at ps 3) of Inl e \<Rightarrow> Inl e | Inr nBlockStart \<Rightarrow>
     if nBlockStart < nBlockMin pHeight budgetCycleBlocks \<or> nBlockStart smod budgetCycleBlocks \<noteq> 0
     then Inl (JSONRPCError RPC_INVALID_PARAMETER
                (''Invalid block start - must be a budget cycle block. Next valid block: ''
                 @ show_int (nBlockMin pHeight budgetCycleBlocks)))
     else
    (case get_str env (params_at ps 4) of Inl e \<Rightarrow> Inl e | Inr s4 \<Rightarrow>
     let address = DecodeDestination env s4 in
     if \<not> IsValidDestination env address
     then Inl (JSONRPCError RPC_INVALID_ADDRESS_OR_KEY ''Invalid hemis address'')
     else
    (case AmountFromValue env (params_at ps 5) of Inl e \<Rightarrow> Inl e | Inr nAmount \<Rightarrow>
     if nAmount < 10 * COIN env
     then Inl (JSONRPCError RPC_INVALID_PARAMETER
                (''Invalid amount - Payment of '' @ FormatMoney env nAmount
                 @ '' is less than minimum 10 '' @ CURRENCY_UNIT env @ '' allowed''))
     else
     let nTotalBudget = GetTotalBudget env nBlockStart in
     if nAmount > nTotalBudget
     then Inl (JSONRPCError RPC_INVALID_PARAMETER
                (''Invalid amount - Payment of '' @ FormatMoney env nAmount
                 @ '' more than max of '' @ FormatMoney env nTotalBudget))
     else Inr \<lparr> out_strProposalName = strProposalName, out_strURL = strURL,
                out_nPaymentCount = nPaymentCount, out_nBlockStart = nBlockStart,
                out_address = address, out_nAmount = nAmount \<rparr>)))))))"

section \<open>The methods that act on the engine\<close>

text \<open>
  A payment of a finalized budget, with the members the source reads.
\<close>

record CTxBudgetPayment =
  nProposalHash :: uint256
  payee :: CScript
  nAmount :: CAmount

text \<open>
  The state of the budget engine (the manager \<^verbatim>\<open>g_budgetman\<close> with its proposals,
  finalized budgets and votes) is a value of type \<open>'s\<close>, and a finalized budget that the
  engine stores is referred to by a value of type \<open>'fb\<close> (the pointer the source is
  given). The methods below are called on the manager, on a proposal or on a finalized
  budget where a claim concerns what a handler does to the engine; their bodies are
  in other files, so each is a function from the state before the call to its result
  and the state after the call. \<open>AddProposal\<close> also returns the proposal it was given by
  reference, \<open>GetProposal\<close> returns the proposal it copies out (\<open>None\<close> when it
  returns false), \<open>fb_GetBudgetPaymentByBlock\<close> the payment it copies out, and
  \<open>fb_m\<close> is the method \<^verbatim>\<open>m\<close> of the finalized budget. The two functions
  \<^verbatim>\<open>gmLocalBudgetVoteInner\<close> and \<^verbatim>\<open>gmBudgetVoteInner\<close> sign and cast the votes of
  \<^verbatim>\<open>gmbudgetvote\<close>; each returns a JSON value or raises.
\<close>

record ('fb, 's) budget_engine =
  AddProposal :: "CBudgetProposal \<Rightarrow> 's \<Rightarrow> (bool \<times> CBudgetProposal) \<times> 's"
  Relay :: "CBudgetProposal \<Rightarrow> 's \<Rightarrow> 's"
  ProcessProposalVote :: "CBudgetVote \<Rightarrow> 's \<Rightarrow> (bool \<times> CValidationState) \<times> 's"
  GetProposal :: "uint256 \<Rightarrow> 's \<Rightarrow> CBudgetProposal option \<times> 's"
  fb_GetBlockStart :: "'fb \<Rightarrow> 's \<Rightarrow> int \<times> 's"
  fb_GetBlockEnd :: "'fb \<Rightarrow> 's \<Rightarrow> int \<times> 's"
  fb_GetBudgetPaymentByBlock :: "'fb \<Rightarrow> int \<Rightarrow> 's \<Rightarrow> CTxBudgetPayment option \<times> 's"
  gmLocalBudgetVoteInner ::
    "bool \<Rightarrow> uint256 \<Rightarrow> bool \<Rightarrow> VoteDirection \<Rightarrow> 's \<Rightarrow> (rpc_error + UniValue) \<times> 's"
  gmBudgetVoteInner ::
    "CWallet_ptr \<Rightarrow> bool \<Rightarrow> uint256 \<Rightarrow> bool \<Rightarrow> VoteDirection \<Rightarrow> string option \<Rightarrow> 's
       \<Rightarrow> (rpc_error + UniValue) \<times> 's"

section \<open>Submitting a proposal: \<^verbatim>\<open>submitbudget\<close>\<close>

definition submitbudget ::
  "'dest budget_env \<Rightarrow> ('fb, 's) budget_engine \<Rightarrow> string \<Rightarrow> JSONRPCRequest \<Rightarrow> 's
     \<Rightarrow> (rpc_error + UniValue) \<times> 's" where
  "submitbudget env eng strHelp request s =
    (if fHelp request \<or> length (params request) \<noteq> 7 then (Inl (runtime_error strHelp), s)
     else
    (case checkBudgetInputs env (params request) of Inl e \<Rightarrow> (Inl e, s) | Inr inputs \<Rightarrow>
     let scriptPubKey = GetScriptForDestination env (out_address inputs) in
    (case ParseHashV env (params_at (params request) 6) ''parameter 1'' of
       Inl e \<Rightarrow> (Inl e, s)
     | Inr hash \<Rightarrow>
     if \<not> IsBlockchainSynced env
     then (Inl (runtime_error
             ''Must wait for client to sync with gamemaster network. Try again in a minute or so.''), s)
     else
     let proposal = NewProposal env (out_strProposalName inputs) (out_strURL inputs)
                      (out_nPaymentCount inputs) scriptPubKey (out_nAmount inputs)
                      (out_nBlockStart inputs) hash
     in
    (case AddProposal eng proposal s of ((fAdded, proposal1), s1) \<Rightarrow>
     if \<not> fAdded
     then (Inl (runtime_error (''invalid budget proposal - '' @ IsInvalidReason proposal1)), s1)
     else
     let s2 = Relay eng proposal1 s1
     in (Inr (VSTR (ToString env (GetHash proposal1))), s2)))))"

section \<open>Listing proposals: \<^verbatim>\<open>budgetToJSON\<close> and \<^verbatim>\<open>getbudgetinfo\<close>\<close>

definition budgetToJSON ::
  "'dest budget_env \<Rightarrow> CBudgetProposal \<Rightarrow> (string \<times> UniValue) list \<Rightarrow> int
     \<Rightarrow> (string \<times> UniValue) list" where
  "budgetToJSON env pbudgetProposal bObj0 nCurrentHeight =
    (let address1 = ExtractDestination env (GetPayee pbudgetProposal);
         bObj = pushKV bObj0 ''Name'' (VSTR (GetName pbudgetProposal));
         bObj = pushKV bObj ''URL'' (VSTR (GetURL pbudgetProposal));
         bObj = pushKV bObj ''Hash'' (VSTR (ToString env (GetHash pbudgetProposal)));
         bObj = pushKV bObj ''FeeHash'' (VSTR (ToString env (GetFeeTXHash pbudgetProposal)));
         bObj = pushKV bObj ''BlockStart'' (VNUM (GetBlockStart pbudgetProposal));
         bObj = pushKV bObj ''BlockEnd'' (VNUM (GetBlockEnd pbudgetProposal));
         bObj = pushKV bObj ''TotalPaymentCount'' (VNUM (GetTotalPaymentCount pbudgetProposal));
         bObj = pushKV bObj ''RemainingPaymentCount''
                  (VNUM (GetRemainingPaymentCount pbudgetProposal nCurrentHeight));
         bObj = pushKV bObj ''PaymentAddress'' (VSTR (EncodeDestination env address1));
         bObj = pushKV bObj ''Ratio'' (VREAL (GetRatio pbudgetProposal));
         bObj = pushKV bObj ''Yeas'' (VNUM (GetYeas pbudgetProposal));
         bObj = pushKV bObj ''Nays'' (VNUM (GetNays pbudgetProposal));
         bObj = pushKV bObj ''Abstains'' (VNUM (GetAbstains pbudgetProposal));
         bObj = pushKV bObj ''TotalPayment''
                  (ValueFromAmount env (GetAmount pbudgetProposal * GetTotalPaymentCount pbudgetProposal));
         bObj = pushKV bObj ''MonthlyPayment'' (ValueFromAmount env (GetAmount pbudgetProposal));
         bObj = pushKV bObj ''IsEstablished'' (VBOOL (IsEstablished pbudgetProposal));
         fValid = IsValid pbudgetProposal;
         bObj = pushKV bObj ''IsValid'' (VBOOL fValid);
         bObj = (if \<not> fValid
                 then pushKV bObj ''IsInvalidReason'' (VSTR (IsInvalidReason pbudgetProposal))
                 else bObj);
         bObj = pushKV bObj ''Allotted'' (ValueFromAmount env (GetAllotted pbudgetProposal))
     in bObj)"

text \<open>The loop of \<^verbatim>\<open>getbudgetinfo\<close> over the proposals the manager returns.\<close>

fun getbudgetinfo_loop ::
  "'dest budget_env \<Rightarrow> int \<Rightarrow> UniValue list \<Rightarrow> CBudgetProposal list \<Rightarrow> UniValue list" where
  "getbudgetinfo_loop env nCurrentHeight ret [] = ret"
| "getbudgetinfo_loop env nCurrentHeight ret (pbudgetProposal # winningProps) =
     (if \<not> IsValid pbudgetProposal
      then getbudgetinfo_loop env nCurrentHeight ret winningProps
      else
        let bObj = budgetToJSON env pbudgetProposal [] nCurrentHeight
        in getbudgetinfo_loop env nCurrentHeight (ret @ [VOBJ bObj]) winningProps)"

definition getbudgetinfo ::
  "'dest budget_env \<Rightarrow> string \<Rightarrow> JSONRPCRequest \<Rightarrow> rpc_error + UniValue" where
  "getbudgetinfo env strHelp request =
    (if fHelp request \<or> length (params request) > 1 then Inl (runtime_error strHelp)
     else
     let ret = [];
         nCurrentHeight = GetBestHeight env in
     if length (params request) = 1
     then
      (case get_str env (params_at (params request) 0) of Inl e \<Rightarrow> Inl e | Inr s0 \<Rightarrow>
       let strProposalName = SanitizeString env s0 in
      (case FindProposalByName env strProposalName of
         None \<Rightarrow> Inl (runtime_error ''Unknown proposal name'')
       | Some pbudgetProposal \<Rightarrow>
           let bObj = budgetToJSON env pbudgetProposal [] nCurrentHeight
           in Inr (VARR (ret @ [VOBJ bObj]))))
     else
       let winningProps = GetAllProposalsOrdered env
       in Inr (VARR (getbudgetinfo_loop env nCurrentHeight ret winningProps)))"

section \<open>Voting on a proposal: \<^verbatim>\<open>gmbudgetvote\<close>\<close>

text \<open>
  The handler first reads the command and maps the legacy names; \<open>fLegacyGM\<close> reads the
  fifth argument only when deterministic gamemasters are enforced and the argument is
  there; the wallet is asked for only when \<open>fLegacyGM\<close> is false.
\<close>

definition gmbudgetvote ::
  "'dest budget_env \<Rightarrow> ('fb, 's) budget_engine \<Rightarrow> string \<Rightarrow> JSONRPCRequest \<Rightarrow> 's
     \<Rightarrow> (rpc_error + UniValue) \<times> 's" where
  \<open>gmbudgetvote env eng strHelp request s =
    (case (if length (params request) \<ge> 1
           then (case get_str env (params_at (params request) 0) of
                   Inl e \<Rightarrow> Inl e
                 | Inr str0 \<Rightarrow>
                     let strCommand = str0;
                         strCommand = (if strCommand = ''vote'' then ''local'' else strCommand);
                         strCommand = (if strCommand = ''vote-many'' then ''many'' else strCommand);
                         strCommand = (if strCommand = ''vote-alias'' then ''alias'' else strCommand)
                     in Inr strCommand)
           else Inr []) of
       Inl e \<Rightarrow> (Inl e, s)
     | Inr strCommand \<Rightarrow>
     let pwallet = GetWalletForJSONRPCRequest env request in
     if fHelp request
        \<or> (length (params request) = 3 \<and> (strCommand \<noteq> ''local'' \<and> strCommand \<noteq> ''many''))
        \<or> (length (params request) = 4 \<and> strCommand \<noteq> ''alias'')
        \<or> length (params request) > 5 \<or> length (params request) < 3
     then (Inl (runtime_error strHelp), s)
     else
    (case ParseHashV env (params_at (params request) 1) ''parameter 1'' of
       Inl e \<Rightarrow> (Inl e, s) | Inr hash \<Rightarrow>
    (case get_str env (params_at (params request) 2) of
       Inl e \<Rightarrow> (Inl e, s) | Inr strVote \<Rightarrow>
    (case parseVote strVote of
       Inl e \<Rightarrow> (Inl e, s) | Inr nVote \<Rightarrow>
    (case (if \<not> IsDIP3Enforced env then Inr True
           else if length (params request) > 4 then get_bool env (params_at (params request) 4)
           else Inr False) of
       Inl e \<Rightarrow> (Inl e, s) | Inr fLegacyGM \<Rightarrow>
     if strCommand = ''local''
     then
       (if \<not> fLegacyGM
        then (Inl (JSONRPCError RPC_MISC_ERROR
                (translate env
                  ''"local" vote is no longer available with DGMs. Use "alias" from the wallet with the voting key.'')), s)
        else gmLocalBudgetVoteInner eng True hash False nVote s)
     else
    (case (if \<not> fLegacyGM
           then (case EnsureWalletIsAvailable env pwallet False of
                   Inl e \<Rightarrow> Inl e
                 | Inr fAvailable \<Rightarrow>
                     if \<not> fAvailable then Inr False
                     else (case EnsureWalletIsUnlocked env pwallet of
                             Inl e \<Rightarrow> Inl e | Inr u \<Rightarrow> Inr True))
           else Inr True) of
       Inl e \<Rightarrow> (Inl e, s)
     | Inr fWalletReady \<Rightarrow>
     if \<not> fWalletReady then (Inr VNULL, s)
     else
     let isAlias = (strCommand \<noteq> ''many'' \<and> strCommand = ''alias'') in
     if strCommand = ''many'' \<or> isAlias
     then
      (case (if isAlias
             then (case get_str env (params_at (params request) 3) of
                     Inl e \<Rightarrow> Inl e | Inr str3 \<Rightarrow> Inr (Some str3))
             else Inr None) of
         Inl e \<Rightarrow> (Inl e, s)
       | Inr gmAlias \<Rightarrow> gmBudgetVoteInner eng pwallet fLegacyGM hash False nVote gmAlias s)
     else (Inr VNULL, s)))))))\<close>

section \<open>Casting a signed vote: \<^verbatim>\<open>gmbudgetrawvote\<close>\<close>

definition gmbudgetrawvote ::
  "'dest budget_env \<Rightarrow> ('fb, 's) budget_engine \<Rightarrow> string \<Rightarrow> JSONRPCRequest \<Rightarrow> 's
     \<Rightarrow> (rpc_error + UniValue) \<times> 's" where
  "gmbudgetrawvote env eng strHelp request s =
    (if fHelp request \<or> length (params request) \<noteq> 6 then (Inl (runtime_error strHelp), s)
     else
    (case ParseHashV env (params_at (params request) 0) ''gm tx hash'' of
       Inl e \<Rightarrow> (Inl e, s) | Inr hashGmTx \<Rightarrow>
    (case get_int env (params_at (params request) 1) of
       Inl e \<Rightarrow> (Inl e, s) | Inr nGmTxIndex \<Rightarrow>
     let vin = NewCTxIn hashGmTx nGmTxIndex in
    (case ParseHashV env (params_at (params request) 2) ''Proposal hash'' of
       Inl e \<Rightarrow> (Inl e, s) | Inr hashProposal \<Rightarrow>
    (case get_str env (params_at (params request) 3) of
       Inl e \<Rightarrow> (Inl e, s) | Inr strVote \<Rightarrow>
    (case parseVote strVote of
       Inl e \<Rightarrow> (Inl e, s) | Inr nVote \<Rightarrow>
    (case get_int64 env (params_at (params request) 4) of
       Inl e \<Rightarrow> (Inl e, s) | Inr nTime \<Rightarrow>
    (case get_str env (params_at (params request) 5) of
       Inl e \<Rightarrow> (Inl e, s) | Inr strSig \<Rightarrow>
     let (vchSig, fInvalid) = DecodeBase64 env strSig in
     if fInvalid
     then (Inl (JSONRPCError RPC_INVALID_ADDRESS_OR_KEY ''Malformed base64 encoding''), s)
     else
    (case gamemasterman_Find env (prevout vin) of
       None \<Rightarrow> (Inr (VSTR (''Failure to find gamemaster in list : '' @ CTxIn_ToString env vin)), s)
     | Some pgm \<Rightarrow>
     let vote = \<lparr> GetVin = vin, GetProposalHash = hashProposal, GetDirection = nVote,
                  GetTime = nTime, GetVchSig = vchSig \<rparr> in
     if \<not> CheckSignature env vote (GetID env (pubKeyGamemaster pgm))
     then (Inr (VSTR ''Failure to verify signature.''), s)
     else
    (case ProcessProposalVote eng vote s of ((fProcessed, state), s1) \<Rightarrow>
     if fProcessed
     then (Inr (VSTR ''Voted successfully''), s1)
     else (Inr (VSTR (''Error voting : '' @ GetRejectReason state @ ''. ''
                       @ GetDebugMessage state)), s1)))))))))))"

section \<open>The status of a finalized budget: \<^verbatim>\<open>GetFinalizedBudgetStatus\<close>\<close>

text \<open>
  The \<^verbatim>\<open>for\<close> loop over the block heights, from \<open>nBlockHeight\<close> while
  \<^verbatim>\<open>nBlockHeight <= nBlockEnd\<close>. It carries the two strings it appends to and the
  state of the engine. (The log line of the first \<^verbatim>\<open>continue\<close> is not modelled. The
  counter is incremented as an integer: for an end height below 2147483647, the largest
  \<^verbatim>\<open>int\<close>, it stays a 32-bit \<^verbatim>\<open>int\<close>.)
\<close>

function GetFinalizedBudgetStatus_loop ::
  "'dest budget_env \<Rightarrow> ('fb, 's) budget_engine \<Rightarrow> 'fb \<Rightarrow> int \<Rightarrow> int \<Rightarrow> string \<times> string \<Rightarrow> 's
     \<Rightarrow> (string \<times> string) \<times> 's" where
  "GetFinalizedBudgetStatus_loop env eng fb nBlockHeight nBlockEnd (retBadHashes, retBadPayeeOrAmount) s =
    (if nBlockHeight \<le> nBlockEnd then
      (case fb_GetBudgetPaymentByBlock eng fb nBlockHeight s of
         (None, s1) \<Rightarrow>
           GetFinalizedBudgetStatus_loop env eng fb (nBlockHeight + 1) nBlockEnd
             (retBadHashes, retBadPayeeOrAmount) s1
       | (Some budgetPayment, s1) \<Rightarrow>
          (case GetProposal eng (nProposalHash budgetPayment) s1 of
             (None, s2) \<Rightarrow>
               GetFinalizedBudgetStatus_loop env eng fb (nBlockHeight + 1) nBlockEnd
                 (retBadHashes @ (if retBadHashes = [] then [] else '', '')
                    @ ToString env (nProposalHash budgetPayment),
                  retBadPayeeOrAmount) s2
           | (Some bp, s2) \<Rightarrow>
               if GetPayee bp \<noteq> payee budgetPayment \<or> GetAmount bp \<noteq> nAmount budgetPayment
               then
                 GetFinalizedBudgetStatus_loop env eng fb (nBlockHeight + 1) nBlockEnd
                   (retBadHashes,
                    retBadPayeeOrAmount @ (if retBadPayeeOrAmount = [] then [] else '', '')
                      @ ToString env (nProposalHash budgetPayment)) s2
               else
                 GetFinalizedBudgetStatus_loop env eng fb (nBlockHeight + 1) nBlockEnd
                   (retBadHashes, retBadPayeeOrAmount) s2))
     else ((retBadHashes, retBadPayeeOrAmount), s))"
  by pat_completeness auto
termination
  by (relation "measure (\<lambda>(env, eng, fb, nBlockHeight, nBlockEnd, acc, s). nat (nBlockEnd + 1 - nBlockHeight))")
     auto

declare GetFinalizedBudgetStatus_loop.simps [simp del]

text \<open>The text the function returns for the two strings the loop has built.\<close>

definition status_text :: "string \<Rightarrow> string \<Rightarrow> string" where
  \<open>status_text retBadHashes retBadPayeeOrAmount =
    (if retBadHashes = [] \<and> retBadPayeeOrAmount = [] then ''OK''
     else
       let retBadHashes1 =
             (if retBadHashes \<noteq> []
              then ''Unknown proposal(s) hash! Check this proposal(s) before voting: '' @ retBadHashes
              else retBadHashes);
           retBadPayeeOrAmount1 =
             (if retBadPayeeOrAmount \<noteq> []
              then ''Budget payee/nAmount doesn\'t match our proposal(s)! '' @ retBadPayeeOrAmount
              else retBadPayeeOrAmount)
       in retBadHashes1 @ '' -- '' @ retBadPayeeOrAmount1)\<close>

definition GetFinalizedBudgetStatus ::
  "'dest budget_env \<Rightarrow> ('fb, 's) budget_engine \<Rightarrow> 'fb \<Rightarrow> 's \<Rightarrow> string \<times> 's" where
  "GetFinalizedBudgetStatus env eng fb s =
    (case fb_GetBlockStart eng fb s of (nBlockStart, s1) \<Rightarrow>
    (case fb_GetBlockEnd eng fb s1 of (nBlockEnd, s2) \<Rightarrow>
    (case GetFinalizedBudgetStatus_loop env eng fb nBlockStart nBlockEnd ([], []) s2 of
       ((retBadHashes, retBadPayeeOrAmount), s3) \<Rightarrow>
         (status_text retBadHashes retBadPayeeOrAmount, s3))))"

section \<open>What the status is computed from\<close>

text \<open>
  The claim about \<^verbatim>\<open>GetFinalizedBudgetStatus\<close> speaks of the heights examined, of the
  payments scheduled at them and of two kinds of record. These are, for the engine in
  state \<open>s\<close>: the payments found at a list of heights, in the order of the heights; the
  proposal hashes of those payments for which no proposal is known; and the proposal
  hashes of those whose known proposal has another payee or another amount.
\<close>

definition scheduled_payments ::
  "('fb, 's) budget_engine \<Rightarrow> 'fb \<Rightarrow> 's \<Rightarrow> int list \<Rightarrow> CTxBudgetPayment list" where
  "scheduled_payments eng fb s heights =
     List.map_filter (\<lambda>h. fst (fb_GetBudgetPaymentByBlock eng fb h s)) heights"

definition is_unknown_proposal :: "('fb, 's) budget_engine \<Rightarrow> 's \<Rightarrow> CTxBudgetPayment \<Rightarrow> bool" where
  "is_unknown_proposal eng s budgetPayment =
     (fst (GetProposal eng (nProposalHash budgetPayment) s) = None)"

definition is_payee_amount_mismatch :: "('fb, 's) budget_engine \<Rightarrow> 's \<Rightarrow> CTxBudgetPayment \<Rightarrow> bool" where
  "is_payee_amount_mismatch eng s budgetPayment =
     (case fst (GetProposal eng (nProposalHash budgetPayment) s) of
        None \<Rightarrow> False
      | Some bp \<Rightarrow> GetPayee bp \<noteq> payee budgetPayment \<or> GetAmount bp \<noteq> nAmount budgetPayment)"

definition unknown_proposals ::
  "('fb, 's) budget_engine \<Rightarrow> 'fb \<Rightarrow> 's \<Rightarrow> int list \<Rightarrow> uint256 list" where
  "unknown_proposals eng fb s heights =
     map nProposalHash (filter (is_unknown_proposal eng s) (scheduled_payments eng fb s heights))"

definition payee_amount_mismatches ::
  "('fb, 's) budget_engine \<Rightarrow> 'fb \<Rightarrow> 's \<Rightarrow> int list \<Rightarrow> uint256 list" where
  "payee_amount_mismatches eng fb s heights =
     map nProposalHash (filter (is_payee_amount_mismatch eng s) (scheduled_payments eng fb s heights))"

text \<open>A list of hashes printed one after the other, separated by a comma and a space.\<close>

definition add_hash :: "'dest budget_env \<Rightarrow> string \<Rightarrow> uint256 \<Rightarrow> string" where
  "add_hash env acc h = acc @ (if acc = [] then [] else '', '') @ ToString env h"

definition join_hashes :: "'dest budget_env \<Rightarrow> uint256 list \<Rightarrow> string" where
  "join_hashes env hs = foldl (add_hash env) [] hs"

text \<open>
  The four methods that \<^verbatim>\<open>GetFinalizedBudgetStatus\<close> calls on the finalized budget \<open>fb\<close>
  and on the manager are queries when none of them changes the state of the engine.
\<close>

definition status_queries_read_only :: "('fb, 's) budget_engine \<Rightarrow> 'fb \<Rightarrow> bool" where
  "status_queries_read_only eng fb =
     ((\<forall>s. snd (fb_GetBlockStart eng fb s) = s)
      \<and> (\<forall>s. snd (fb_GetBlockEnd eng fb s) = s)
      \<and> (\<forall>h s. snd (fb_GetBudgetPaymentByBlock eng fb h s) = s)
      \<and> (\<forall>h s. snd (GetProposal eng h s) = s))"


section \<open>When a vote may be processed\<close>

text \<open>
  The claim about \<^verbatim>\<open>gmbudgetrawvote\<close> speaks of a vote whose gamemaster is found in the
  gamemaster list and whose signature verifies against the key of that gamemaster.
\<close>

definition vote_admitted :: "'dest budget_env \<Rightarrow> CBudgetVote \<Rightarrow> bool" where
  "vote_admitted env vote =
     (case gamemasterman_Find env (prevout (GetVin vote)) of
        None \<Rightarrow> False
      | Some pgm \<Rightarrow> CheckSignature env vote (GetID env (pubKeyGamemaster pgm)))"

section \<open>A concrete environment and engine\<close>

text \<open>
  One instance of the environment, used to run the handlers on concrete requests:
  JSON strings and numbers convert to themselves, a hash is written as a JSON number,
  an amount is given in whole coins, a destination is a non-empty address text, a
  URL is valid up to 64 characters, the chain is at height 900 with a budget cycle of
  43200 blocks and at most 12 payments per proposal, and the gamemaster list holds
  the outpoints of index 0, whose signature is the character 7; deterministic
  gamemasters are enforced and there is a wallet, unlocked.
\<close>

definition example_get_str :: "UniValue \<Rightarrow> rpc_error + string" where
  "example_get_str v =
     (case v of VSTR str \<Rightarrow> Inr str
      | _ \<Rightarrow> Inl (runtime_error ''JSON value is not a string as expected''))"

definition example_get_int :: "UniValue \<Rightarrow> rpc_error + int" where
  "example_get_int v =
     (case v of VNUM i \<Rightarrow> Inr i
      | _ \<Rightarrow> Inl (runtime_error ''JSON value is not an integer as expected''))"

definition example_get_bool :: "UniValue \<Rightarrow> rpc_error + bool" where
  "example_get_bool v =
     (case v of VBOOL b \<Rightarrow> Inr b
      | _ \<Rightarrow> Inl (runtime_error ''JSON value is not a boolean as expected''))"

definition example_ParseHashV :: "UniValue \<Rightarrow> string \<Rightarrow> rpc_error + uint256" where
  "example_ParseHashV v strName =
     (case v of VNUM i \<Rightarrow> Inr (word_of_int i)
      | _ \<Rightarrow> Inl (JSONRPCError RPC_INVALID_PARAMETER (strName @ '' must be hexadecimal string'')))"

definition example_AmountFromValue :: "UniValue \<Rightarrow> rpc_error + CAmount" where
  "example_AmountFromValue v =
     (case v of VNUM i \<Rightarrow> Inr (i * 100000000)
      | _ \<Rightarrow> Inl (JSONRPCError RPC_INVALID_PARAMETER ''Amount is not a number or string''))"

definition example_NewProposal ::
  "string \<Rightarrow> string \<Rightarrow> int \<Rightarrow> CScript \<Rightarrow> CAmount \<Rightarrow> int \<Rightarrow> uint256 \<Rightarrow> CBudgetProposal" where
  "example_NewProposal strName strUrl nCount script nAmt nStart feeHash =
     \<lparr> GetName = strName, GetURL = strUrl, GetHash = word_of_nat (length strName) + feeHash,
       GetFeeTXHash = feeHash, GetBlockStart = nStart, GetBlockEnd = nStart + 43200 * nCount,
       GetTotalPaymentCount = nCount, GetRemainingPaymentCount = (\<lambda>h. nCount),
       GetPayee = script, GetRatio = 0, GetYeas = 0, GetNays = 0, GetAbstains = 0,
       GetAmount = nAmt, IsEstablished = False, IsValid = True, IsInvalidReason = [],
       GetAllotted = 0 \<rparr>"

definition example_proposals :: "CBudgetProposal list" where
  "example_proposals =
     [ example_NewProposal ''roads'' ''https://hemis.org/roads'' 2 [1] 50000000000 43200 5,
       (example_NewProposal ''parks'' ''https://hemis.org/parks'' 1 [2] 20000000000 43200 6)
         \<lparr> IsValid := False, IsInvalidReason := ''Proposal fee tx not found'' \<rparr>,
       example_NewProposal ''school'' ''https://hemis.org/school'' 3 [3] 70000000000 86400 7 ]"

definition example_env :: "string budget_env" where
  "example_env =
     \<lparr> get_str = example_get_str, get_int = example_get_int, get_int64 = example_get_int,
       get_bool = example_get_bool,
       ParseHashV = example_ParseHashV, AmountFromValue = example_AmountFromValue,
       ValueFromAmount = VNUM, SanitizeString = (\<lambda>str. str),
       validateURL = (\<lambda>strURL. if length strURL > 64 then (False, ''Invalid URL'') else (True, [])),
       DecodeBase64 = (\<lambda>str. (map (\<lambda>c. word_of_nat (of_char c)) str, False)),
       ToString = (\<lambda>h. show_nat (unat h)),
       CTxIn_ToString = (\<lambda>vin. show_nat (unat (outpoint_hash (prevout vin)))),
       DecodeDestination = (\<lambda>str. str), IsValidDestination = (\<lambda>dest. dest \<noteq> []),
       GetScriptForDestination = (\<lambda>dest. map (\<lambda>c. word_of_nat (of_char c)) dest),
       ExtractDestination = (\<lambda>script. map (\<lambda>b. char_of (unat b)) script), EncodeDestination = (\<lambda>dest. dest),
       COIN = 100000000, FormatMoney = show_int, CURRENCY_UNIT = ''HMS'',
       GetConsensus = \<lparr> nMaxProposalPayments = 12, nBudgetCycleBlocks = 43200 \<rparr>,
       GetChainTip = Some 900, Height = 900, IsBlockchainSynced = True,
       IsDIP3Enforced = True, translate = (\<lambda>str. str),
       GetWalletForJSONRPCRequest = (\<lambda>request. Some 0),
       EnsureWalletIsAvailable = (\<lambda>pwallet avoidException. Inr (pwallet \<noteq> None)),
       EnsureWalletIsUnlocked = (\<lambda>pwallet. Inr ()),
       gamemasterman_Find =
         (\<lambda>outpoint. if outpoint_n outpoint = 0 then Some \<lparr> pubKeyGamemaster = [1] \<rparr> else None),
       GetID = (\<lambda>key. word_of_nat (length key)),
       CheckSignature = (\<lambda>vote keyID. GetVchSig vote = [55]),
       NewProposal = example_NewProposal,
       GetTotalBudget = (\<lambda>nHeight. 4320000000000),
       GetBestHeight = 900,
       FindProposalByName = (\<lambda>strName. find (\<lambda>p. GetName p = strName) example_proposals),
       GetAllProposalsOrdered = example_proposals \<rparr>"

text \<open>
  One instance of the engine. Its state holds the proposals, the votes accepted, the
  hashes relayed and the finalized budgets, each finalized budget with its start height
  and its payments, one for each height from the start on; a finalized budget is
  referred to by its position. Its method \<^verbatim>\<open>GetBlockEnd\<close> returns the height of its last
  payment, which is the start height plus the number of payments minus one. The
  two functions that cast the votes of \<^verbatim>\<open>gmbudgetvote\<close> add a vote of the direction they
  are given.
\<close>

record example_state =
  st_proposals :: "CBudgetProposal list"
  st_votes :: "CBudgetVote list"
  st_relayed :: "uint256 list"
  st_budgets :: "(int \<times> CTxBudgetPayment list) list"

definition example_engine :: "(nat, example_state) budget_engine" where
  "example_engine =
     \<lparr> AddProposal = (\<lambda>p s.
         if GetHash p \<in> set (map GetHash (st_proposals s))
         then ((False, p\<lparr> IsInvalidReason := ''Proposal already known'' \<rparr>), s)
         else ((True, p), s\<lparr> st_proposals := st_proposals s @ [p] \<rparr>)),
       Relay = (\<lambda>p s. s\<lparr> st_relayed := st_relayed s @ [GetHash p] \<rparr>),
       ProcessProposalVote = (\<lambda>v s.
         if GetProposalHash v \<in> set (map GetHash (st_proposals s))
         then ((True, \<lparr> GetRejectReason = [], GetDebugMessage = [] \<rparr>),
               s\<lparr> st_votes := st_votes s @ [v] \<rparr>)
         else ((False, \<lparr> GetRejectReason = ''bad-proposal'', GetDebugMessage = ''Proposal not found'' \<rparr>), s)),
       GetProposal = (\<lambda>h s. (find (\<lambda>p. GetHash p = h) (st_proposals s), s)),
       fb_GetBlockStart = (\<lambda>fb s. (fst (st_budgets s ! fb), s)),
       fb_GetBlockEnd = (\<lambda>fb s.
         (fst (st_budgets s ! fb) + int (length (snd (st_budgets s ! fb))) - 1, s)),
       fb_GetBudgetPaymentByBlock = (\<lambda>fb h s.
         (let i = h - fst (st_budgets s ! fb) in
          if i < 0 \<or> i > int (length (snd (st_budgets s ! fb))) - 1 then None
          else Some (snd (st_budgets s ! fb) ! nat i), s)),
       gmLocalBudgetVoteInner = (\<lambda>fLegacy h fFinal dir s.
         (Inr (VSTR ''local''),
          s\<lparr> st_votes := st_votes s @
            [\<lparr> GetVin = NewCTxIn 0 0, GetProposalHash = h, GetDirection = dir,
               GetTime = 0, GetVchSig = [] \<rparr>] \<rparr>)),
       gmBudgetVoteInner = (\<lambda>pwallet fLegacy h fFinal dir gmAlias s.
         (Inr (VSTR ''many''),
          s\<lparr> st_votes := st_votes s @
            [\<lparr> GetVin = NewCTxIn 1 0, GetProposalHash = h, GetDirection = dir,
               GetTime = 0, GetVchSig = [] \<rparr>] \<rparr>)) \<rparr>"

text \<open>
  A state with the three example proposals and one finalized budget for the heights
  100 and 101: its first payment agrees with the proposal "roads", its second payment
  names the proposal "parks" with another payee.
\<close>

definition example_s :: example_state where
  "example_s =
     \<lparr> st_proposals = example_proposals, st_votes = [], st_relayed = [],
       st_budgets =
         [ (100, [ \<lparr> nProposalHash = 10, payee = [1], nAmount = 50000000000 \<rparr>,
                   \<lparr> nProposalHash = 11, payee = [9], nAmount = 20000000000 \<rparr> ]) ] \<rparr>"

text \<open>
  The example environment with the chain tip at height 2147483647, the largest value
  of a 32-bit \<^verbatim>\<open>int\<close>.
\<close>

definition example_env_high :: "string budget_env" where
  "example_env_high = example_env \<lparr> GetChainTip := Some 2147483647, Height := 2147483647 \<rparr>"

section \<open>Properties\<close>

subsection \<open>Auxiliary facts\<close>

text \<open>The truncating remainder agrees with \<open>mod\<close> on a non-negative dividend and a
  positive divisor, and it is zero exactly on the multiples of a positive divisor.\<close>

lemma smod_nonneg_pos: "0 \<le> h \<Longrightarrow> 0 < c \<Longrightarrow> (h::int) smod c = h mod c"
  by (cases "h = 0") (simp_all add: signed_modulo_int_def)

lemma smod_eq_0_iff: "0 < c \<Longrightarrow> ((x::int) smod c = 0) = (c dvd x)"
proof -
  assume c: "0 < c"
  have "(x smod c = 0) = (\<bar>x\<bar> mod c = 0)"
    using c by (cases "x = 0") (simp_all add: signed_modulo_int_def sgn_eq_0_iff)
  also have "\<dots> = (c dvd \<bar>x\<bar>)" by (simp add: mod_eq_0_iff_dvd)
  also have "\<dots> = (c dvd x)" by simp
  finally show ?thesis .
qed

lemma least_multiple_above:
  assumes c: "0 < (c::int)" and dv: "c dvd m" and lt: "h - h mod c < m"
  shows "h - h mod c + c \<le> m"
proof -
  from dv obtain k where m: "m = c * k" by (auto simp: dvd_def)
  have base: "h - h mod c = c * (h div c)"
    by (simp add: minus_mod_eq_mult_div)
  from lt m base have "c * (h div c) < c * k" by simp
  with c have "h div c < k" by (simp add: mult_less_cancel_left_pos)
  then have "h div c + 1 \<le> k" by simp
  with c have "c * (h div c + 1) \<le> c * k" by (simp only: mult_le_cancel_left_pos)
  then have "c * (h div c) + c \<le> c * k" by (simp add: algebra_simps)
  with m show ?thesis by (simp only: base)
qed

text \<open>Unfolding the concrete environment.\<close>

lemmas example_simps =
  example_env_def example_get_str_def example_get_int_def example_get_bool_def
  example_AmountFromValue_def example_ParseHashV_def params_at_def Let_def

subsection \<open>Vote parsing\<close>

text \<open>A case distinction on the result of \<^verbatim>\<open>parseVote\<close> has three outcomes.\<close>

lemma case_parseVote:
  \<open>(case parseVote strVote of Inl e \<Rightarrow> A e | Inr nVote \<Rightarrow> B nVote) =
     (if strVote = ''yes'' then B VOTE_YES
      else if strVote = ''no'' then B VOTE_NO
      else A (JSONRPCError RPC_MISC_ERROR (''You can only vote \'yes\' or \'no'' @ [CHR 0x27])))\<close>
  by (simp add: parseVote_def)

text \<open>
  Claim C9. \<^verbatim>\<open>parseVote\<close> returns \<open>VOTE_YES\<close> for the string "yes", \<open>VOTE_NO\<close> for
  the string "no" and raises the RPC error for every other string (the comparison is
  exact, so "YES" raises too); it never returns \<open>VOTE_ABSTAIN\<close>. So no vote that
  \<^verbatim>\<open>gmbudgetrawvote\<close> or \<^verbatim>\<open>gmbudgetvote\<close> casts has the direction \<open>VOTE_ABSTAIN\<close>: what
  these handlers return and the state they leave do not depend on what
  \<^verbatim>\<open>ProcessProposalVote\<close>, \<^verbatim>\<open>gmLocalBudgetVoteInner\<close> and \<^verbatim>\<open>gmBudgetVoteInner\<close> do with a
  vote of that direction.
\<close>

theorem parseVote_yes_no_only:
  \<open>parseVote strVote =
     (if strVote = ''yes'' then Inr VOTE_YES
      else if strVote = ''no'' then Inr VOTE_NO
      else Inl (JSONRPCError RPC_MISC_ERROR (''You can only vote \'yes\' or \'no'' @ [CHR 0x27])))
   \<and> parseVote strVote \<noteq> Inr VOTE_ABSTAIN
   \<and> parseVote ''YES'' = Inl (JSONRPCError RPC_MISC_ERROR (''You can only vote \'yes\' or \'no'' @ [CHR 0x27]))
   \<and> (\<forall>eng'. (\<forall>vote s'. GetDirection vote \<noteq> VOTE_ABSTAIN \<longrightarrow>
                 ProcessProposalVote eng' vote s' = ProcessProposalVote eng vote s')
          \<longrightarrow> gmbudgetrawvote env (eng' :: ('fb, 's) budget_engine) strHelp request s
              = gmbudgetrawvote env (eng :: ('fb, 's) budget_engine) strHelp request s)
   \<and> (\<forall>eng'. (\<forall>fLegacy hash fFinal nVote s'. nVote \<noteq> VOTE_ABSTAIN \<longrightarrow>
                 gmLocalBudgetVoteInner eng' fLegacy hash fFinal nVote s'
                   = gmLocalBudgetVoteInner eng fLegacy hash fFinal nVote s')
          \<and> (\<forall>pwallet fLegacy hash fFinal nVote gmAlias s'. nVote \<noteq> VOTE_ABSTAIN \<longrightarrow>
                 gmBudgetVoteInner eng' pwallet fLegacy hash fFinal nVote gmAlias s'
                   = gmBudgetVoteInner eng pwallet fLegacy hash fFinal nVote gmAlias s')
          \<longrightarrow> gmbudgetvote env (eng' :: ('fb, 's) budget_engine) strHelp request s
              = gmbudgetvote env (eng :: ('fb, 's) budget_engine) strHelp request s)\<close>
proof (intro conjI allI impI)
  show \<open>parseVote strVote =
     (if strVote = ''yes'' then Inr VOTE_YES
      else if strVote = ''no'' then Inr VOTE_NO
      else Inl (JSONRPCError RPC_MISC_ERROR (''You can only vote \'yes\' or \'no'' @ [CHR 0x27])))\<close>
    by (simp add: parseVote_def)
  show "parseVote strVote \<noteq> Inr VOTE_ABSTAIN"
    by (simp add: parseVote_def)
  show \<open>parseVote ''YES'' = Inl (JSONRPCError RPC_MISC_ERROR (''You can only vote \'yes\' or \'no'' @ [CHR 0x27]))\<close>
    by (simp add: parseVote_def)
next
  fix eng' :: "('fb, 's) budget_engine"
  assume "\<forall>vote s'. GetDirection vote \<noteq> VOTE_ABSTAIN \<longrightarrow>
                 ProcessProposalVote eng' vote s' = ProcessProposalVote eng vote s'"
  then show "gmbudgetrawvote env eng' strHelp request s = gmbudgetrawvote env eng strHelp request s"
    by (simp add: gmbudgetrawvote_def case_parseVote
          cong: sum.case_cong option.case_cong prod.case_cong if_cong split del: if_split)
next
  fix eng' :: "('fb, 's) budget_engine"
  assume "(\<forall>fLegacy hash fFinal nVote s'. nVote \<noteq> VOTE_ABSTAIN \<longrightarrow>
                 gmLocalBudgetVoteInner eng' fLegacy hash fFinal nVote s'
                   = gmLocalBudgetVoteInner eng fLegacy hash fFinal nVote s')
          \<and> (\<forall>pwallet fLegacy hash fFinal nVote gmAlias s'. nVote \<noteq> VOTE_ABSTAIN \<longrightarrow>
                 gmBudgetVoteInner eng' pwallet fLegacy hash fFinal nVote gmAlias s'
                   = gmBudgetVoteInner eng pwallet fLegacy hash fFinal nVote gmAlias s')"
  then show "gmbudgetvote env eng' strHelp request s = gmbudgetvote env eng strHelp request s"
    by (simp add: gmbudgetvote_def case_parseVote
          cong: sum.case_cong option.case_cong prod.case_cong if_cong split del: if_split)
qed

theorem parseVote_yes_no_only_witness:
  "gmbudgetrawvote example_env
     (example_engine \<lparr> ProcessProposalVote := (\<lambda>vote s.
        if GetDirection vote = VOTE_ABSTAIN
        then ((False, \<lparr> GetRejectReason = ''abstain'', GetDebugMessage = [] \<rparr>), s)
        else ProcessProposalVote example_engine vote s) \<rparr>)
     ''usage''
     \<lparr> fHelp = False,
       params = [VNUM 42, VNUM 0, VNUM 10, VSTR ''no'', VNUM 1700000000, VSTR ''7''] \<rparr> example_s
   = gmbudgetrawvote example_env example_engine ''usage''
     \<lparr> fHelp = False,
       params = [VNUM 42, VNUM 0, VNUM 10, VSTR ''no'', VNUM 1700000000, VSTR ''7''] \<rparr> example_s
   \<and> gmbudgetvote example_env
     (example_engine \<lparr> gmBudgetVoteInner := (\<lambda>pwallet fLegacy h fFinal dir gmAlias s.
        if dir = VOTE_ABSTAIN then (Inr VNULL, s)
        else gmBudgetVoteInner example_engine pwallet fLegacy h fFinal dir gmAlias s) \<rparr>)
     ''usage''
     \<lparr> fHelp = False, params = [VSTR ''vote-many'', VNUM 10, VSTR ''yes''] \<rparr> example_s
   = gmbudgetvote example_env example_engine ''usage''
     \<lparr> fHelp = False, params = [VSTR ''vote-many'', VNUM 10, VSTR ''yes''] \<rparr> example_s
   \<and> parseVote ''abstain'' = parseVote ''YES''"
proof (intro conjI)
  show "gmbudgetrawvote example_env
     (example_engine \<lparr> ProcessProposalVote := (\<lambda>vote s.
        if GetDirection vote = VOTE_ABSTAIN
        then ((False, \<lparr> GetRejectReason = ''abstain'', GetDebugMessage = [] \<rparr>), s)
        else ProcessProposalVote example_engine vote s) \<rparr>)
     ''usage''
     \<lparr> fHelp = False,
       params = [VNUM 42, VNUM 0, VNUM 10, VSTR ''no'', VNUM 1700000000, VSTR ''7''] \<rparr> example_s
   = gmbudgetrawvote example_env example_engine ''usage''
     \<lparr> fHelp = False,
       params = [VNUM 42, VNUM 0, VNUM 10, VSTR ''no'', VNUM 1700000000, VSTR ''7''] \<rparr> example_s"
    by (rule parseVote_yes_no_only
          [THEN conjunct2, THEN conjunct2, THEN conjunct2, THEN conjunct1, rule_format])
       simp
  show "gmbudgetvote example_env
     (example_engine \<lparr> gmBudgetVoteInner := (\<lambda>pwallet fLegacy h fFinal dir gmAlias s.
        if dir = VOTE_ABSTAIN then (Inr VNULL, s)
        else gmBudgetVoteInner example_engine pwallet fLegacy h fFinal dir gmAlias s) \<rparr>)
     ''usage''
     \<lparr> fHelp = False, params = [VSTR ''vote-many'', VNUM 10, VSTR ''yes''] \<rparr> example_s
   = gmbudgetvote example_env example_engine ''usage''
     \<lparr> fHelp = False, params = [VSTR ''vote-many'', VNUM 10, VSTR ''yes''] \<rparr> example_s"
    by (rule parseVote_yes_no_only
          [THEN conjunct2, THEN conjunct2, THEN conjunct2, THEN conjunct2, rule_format])
       simp_all
  show "parseVote ''abstain'' = parseVote ''YES''"
    using parseVote_yes_no_only [of "''abstain''", THEN conjunct1]
          parseVote_yes_no_only [of "''YES''", THEN conjunct1]
    by simp
qed

subsection \<open>The next superblock\<close>

text \<open>
  The wrap-around leaves a value within the range of a 32-bit \<^verbatim>\<open>int\<close> as it is. So
  where \<open>h - (h mod c) + c\<close> fits a 32-bit \<^verbatim>\<open>int\<close>, the locals \<^verbatim>\<open>nNext\<close> and \<^verbatim>\<open>nBlockMin\<close>
  hold that number.
\<close>

lemma int32_id: "- 2147483648 \<le> x \<Longrightarrow> x < 2147483648 \<Longrightarrow> int32 x = x"
  by (simp add: int32_def)

lemma nNext_fits:
  assumes h: "0 \<le> h" and c: "0 < c" and fit: "h - h mod c + c \<le> 2147483647"
  shows "nNext h c = h - h mod c + c"
proof -
  have sm: "h smod c = h mod c" using h c by (rule smod_nonneg_pos)
  have m0: "0 \<le> h mod c" and m1: "h mod c < c" using c by simp_all
  have m2: "h mod c \<le> h" using h c by (simp add: zmod_le_nonneg_dividend)
  have b: "int32 (h - h mod c) = h - h mod c"
    using m0 m1 m2 fit c by (simp add: int32_id)
  have d: "int32 (h - h mod c + c) = h - h mod c + c"
    using m0 m1 m2 fit c by (simp add: int32_id)
  show ?thesis unfolding nNext_def sm by (simp only: b d)
qed

lemma nBlockMin_eq_nNext: "nBlockMin h c = nNext h c"
  by (simp add: nBlockMin_def nNext_def)

lemma next_boundary_aligned: "0 < c \<Longrightarrow> (h - h mod c + c) smod c = (0::int)"
proof -
  assume c: "0 < c"
  have "h - h mod c + c = c * (h div c + 1)"
    by (simp add: minus_mod_eq_mult_div algebra_simps)
  then have "c dvd h - h mod c + c" by simp
  with c show ?thesis by (simp add: smod_eq_0_iff)
qed

text \<open>
  Claim C2, as the code has it. For a chain height \<open>h \<ge> 0\<close> and a cycle length \<open>c > 0\<close>
  such that \<open>h - (h mod c) + c\<close> does not exceed 2147483647, the largest 32-bit \<^verbatim>\<open>int\<close>,
  the height that \<^verbatim>\<open>getnextsuperblock\<close> returns (\<open>nNext\<close>) and the least start height
  that \<^verbatim>\<open>checkBudgetInputs\<close> allows (\<open>nBlockMin\<close>) are both \<open>h - (h mod c) + c\<close>. This is
  a multiple of \<open>c\<close>, it is the least multiple of \<open>c\<close> strictly above \<open>h - (h mod c)\<close>,
  and it is strictly greater than \<open>h\<close>, also when \<open>h\<close> is itself a multiple of \<open>c\<close>.
  \<^verbatim>\<open>getnextsuperblock\<close> returns it at chain height \<open>h\<close>; and \<^verbatim>\<open>checkBudgetInputs\<close>, at
  tip height \<open>h\<close> and with the name, the URL and the payment count passed, rejects every
  start height below it with the error that names it, and accepts it as a start height
  when the address and the amount pass too.
\<close>

theorem next_superblock_height:
  assumes h: "0 \<le> h" and c: "0 < c" and fit: "h - h mod c + c \<le> 2147483647"
  shows "nNext h c = h - h mod c + c
       \<and> nBlockMin h c = h - h mod c + c
       \<and> c dvd nNext h c
       \<and> (\<forall>m. c dvd m \<and> h - h mod c < m \<longrightarrow> nNext h c \<le> m)
       \<and> h < nNext h c
       \<and> (\<forall>env strHelp. Height env = h \<and> nBudgetCycleBlocks (GetConsensus env) = c \<longrightarrow>
            getnextsuperblock (env :: 'dest budget_env) strHelp \<lparr>fHelp = False, params = []\<rparr>
              = Inr (VNUM (h - h mod c + c)))
       \<and> (\<forall>env ps s0 s1 n start s4 a.
             get_str env (params_at ps 0) = Inr s0 \<and> length (SanitizeString env s0) \<le> 20
           \<and> get_str env (params_at ps 1) = Inr s1 \<and> fst (validateURL env (SanitizeString env s1))
           \<and> get_int env (params_at ps 2) = Inr n \<and> 1 \<le> n
           \<and> n \<le> nMaxProposalPayments (GetConsensus env)
           \<and> GetChainTip env = Some h \<and> nBudgetCycleBlocks (GetConsensus env) = c
           \<and> get_int env (params_at ps 3) = Inr start
           \<longrightarrow>
             (start < h - h mod c + c \<longrightarrow>
                checkBudgetInputs (env :: 'dest budget_env) ps =
                  Inl (JSONRPCError RPC_INVALID_PARAMETER
                        (''Invalid block start - must be a budget cycle block. Next valid block: ''
                         @ show_int (h - h mod c + c))))
           \<and> (start = h - h mod c + c
                \<and> get_str env (params_at ps 4) = Inr s4
                \<and> IsValidDestination env (DecodeDestination env s4)
                \<and> AmountFromValue env (params_at ps 5) = Inr a
                \<and> 10 * COIN env \<le> a \<and> a \<le> GetTotalBudget env start \<longrightarrow>
                checkBudgetInputs env ps =
                  Inr \<lparr> out_strProposalName = SanitizeString env s0,
                        out_strURL = SanitizeString env s1,
                        out_nPaymentCount = n, out_nBlockStart = start,
                        out_address = DecodeDestination env s4, out_nAmount = a \<rparr>))"
proof -
  have n: "nNext h c = h - h mod c + c" using h c fit by (rule nNext_fits)
  have b: "nBlockMin h c = h - h mod c + c" by (simp only: nBlockMin_eq_nNext n)
  have "h - h mod c + c = c * (h div c + 1)"
    by (simp add: minus_mod_eq_mult_div algebra_simps)
  then have d: "c dvd nNext h c" by (simp add: n)
  have l: "\<forall>m. c dvd m \<and> h - h mod c < m \<longrightarrow> nNext h c \<le> m"
    using least_multiple_above [OF c] by (simp add: n)
  have "h mod c < c" using c by simp
  then have g: "h < nNext h c" by (simp add: n)
  have r: "\<forall>env strHelp. Height env = h \<and> nBudgetCycleBlocks (GetConsensus env) = c \<longrightarrow>
            getnextsuperblock (env :: 'dest budget_env) strHelp \<lparr>fHelp = False, params = []\<rparr>
              = Inr (VNUM (h - h mod c + c))"
    using h by (auto simp add: getnextsuperblock_def n)
  have al: "(h - h mod c + c) smod c = 0" using c by (rule next_boundary_aligned)
  have k: "\<forall>env ps s0 s1 n start s4 a.
             get_str env (params_at ps 0) = Inr s0 \<and> length (SanitizeString env s0) \<le> 20
           \<and> get_str env (params_at ps 1) = Inr s1 \<and> fst (validateURL env (SanitizeString env s1))
           \<and> get_int env (params_at ps 2) = Inr n \<and> 1 \<le> n
           \<and> n \<le> nMaxProposalPayments (GetConsensus env)
           \<and> GetChainTip env = Some h \<and> nBudgetCycleBlocks (GetConsensus env) = c
           \<and> get_int env (params_at ps 3) = Inr start
           \<longrightarrow>
             (start < h - h mod c + c \<longrightarrow>
                checkBudgetInputs (env :: 'dest budget_env) ps =
                  Inl (JSONRPCError RPC_INVALID_PARAMETER
                        (''Invalid block start - must be a budget cycle block. Next valid block: ''
                         @ show_int (h - h mod c + c))))
           \<and> (start = h - h mod c + c
                \<and> get_str env (params_at ps 4) = Inr s4
                \<and> IsValidDestination env (DecodeDestination env s4)
                \<and> AmountFromValue env (params_at ps 5) = Inr a
                \<and> 10 * COIN env \<le> a \<and> a \<le> GetTotalBudget env start \<longrightarrow>
                checkBudgetInputs env ps =
                  Inr \<lparr> out_strProposalName = SanitizeString env s0,
                        out_strURL = SanitizeString env s1,
                        out_nPaymentCount = n, out_nBlockStart = start,
                        out_address = DecodeDestination env s4, out_nAmount = a \<rparr>)"
  proof (intro allI impI conjI)
    fix env :: "'dest budget_env" and ps s0 s1 n start
    assume pre: "get_str env (params_at ps 0) = Inr s0 \<and> length (SanitizeString env s0) \<le> 20
           \<and> get_str env (params_at ps 1) = Inr s1 \<and> fst (validateURL env (SanitizeString env s1))
           \<and> get_int env (params_at ps 2) = Inr n \<and> 1 \<le> n
           \<and> n \<le> nMaxProposalPayments (GetConsensus env)
           \<and> GetChainTip env = Some h \<and> nBudgetCycleBlocks (GetConsensus env) = c
           \<and> get_int env (params_at ps 3) = Inr start"
       and low: "start < h - h mod c + c"
    from pre low show "checkBudgetInputs env ps =
                  Inl (JSONRPCError RPC_INVALID_PARAMETER
                        (''Invalid block start - must be a budget cycle block. Next valid block: ''
                         @ show_int (h - h mod c + c)))"
      by (simp add: checkBudgetInputs_def Let_def case_prod_beta b)
  next
    fix env :: "'dest budget_env" and ps s0 s1 n start s4 a
    assume pre: "get_str env (params_at ps 0) = Inr s0 \<and> length (SanitizeString env s0) \<le> 20
           \<and> get_str env (params_at ps 1) = Inr s1 \<and> fst (validateURL env (SanitizeString env s1))
           \<and> get_int env (params_at ps 2) = Inr n \<and> 1 \<le> n
           \<and> n \<le> nMaxProposalPayments (GetConsensus env)
           \<and> GetChainTip env = Some h \<and> nBudgetCycleBlocks (GetConsensus env) = c
           \<and> get_int env (params_at ps 3) = Inr start"
       and rest: "start = h - h mod c + c
                \<and> get_str env (params_at ps 4) = Inr s4
                \<and> IsValidDestination env (DecodeDestination env s4)
                \<and> AmountFromValue env (params_at ps 5) = Inr a
                \<and> 10 * COIN env \<le> a \<and> a \<le> GetTotalBudget env start"
    from pre rest show "checkBudgetInputs env ps =
                  Inr \<lparr> out_strProposalName = SanitizeString env s0,
                        out_strURL = SanitizeString env s1,
                        out_nPaymentCount = n, out_nBlockStart = start,
                        out_address = DecodeDestination env s4, out_nAmount = a \<rparr>"
      by (auto simp add: checkBudgetInputs_def Let_def case_prod_beta b al)
  qed
  from n b d l g r k show ?thesis by (intro conjI)
qed

theorem next_superblock_height_witness:
  "nNext 43200 43200 = 86400 \<and> nBlockMin 43200 43200 = 86400 \<and> (43200::int) < nNext 43200 43200
   \<and> getnextsuperblock example_env ''usage'' \<lparr>fHelp = False, params = []\<rparr> = Inr (VNUM 43200)
   \<and> nNext 900 43200 = 43200
   \<and> checkBudgetInputs example_env
       [VSTR ''test-proposal'', VSTR ''https://forum.hemis.org/t/test-proposal'', VNUM 2,
        VNUM 43199, VSTR ''D9oc6C3dttUbv8zd7zGNq1qKBGf4ZQ1XEE'', VNUM 500]
     = Inl (JSONRPCError RPC_INVALID_PARAMETER
             ''Invalid block start - must be a budget cycle block. Next valid block: 43200'')
   \<and> checkBudgetInputs example_env
       [VSTR ''test-proposal'', VSTR ''https://forum.hemis.org/t/test-proposal'', VNUM 2,
        VNUM 43200, VSTR ''D9oc6C3dttUbv8zd7zGNq1qKBGf4ZQ1XEE'', VNUM 500]
     = Inr \<lparr> out_strProposalName = ''test-proposal'',
             out_strURL = ''https://forum.hemis.org/t/test-proposal'',
             out_nPaymentCount = 2, out_nBlockStart = 43200,
             out_address = ''D9oc6C3dttUbv8zd7zGNq1qKBGf4ZQ1XEE'', out_nAmount = 50000000000 \<rparr>"
proof -
  have f1: "(0::int) \<le> 43200" "(0::int) < 43200" "(43200::int) - 43200 mod 43200 + 43200 \<le> 2147483647"
    by simp_all
  have f2: "(0::int) \<le> 900" "(0::int) < 43200" "(900::int) - 900 mod 43200 + 43200 \<le> 2147483647"
    by simp_all
  note t1 = next_superblock_height [OF f1, where 'dest = string]
  note t2 = next_superblock_height [OF f2, where 'dest = string]
  note chk = t2 [THEN conjunct2, THEN conjunct2, THEN conjunct2, THEN conjunct2, THEN conjunct2,
                 THEN conjunct2, rule_format]
  have a: "nNext 43200 43200 = 86400 \<and> nBlockMin 43200 43200 = 86400 \<and> (43200::int) < nNext 43200 43200"
    using t1 by simp
  have b: "getnextsuperblock example_env ''usage'' \<lparr>fHelp = False, params = []\<rparr> = Inr (VNUM 43200)
           \<and> nNext 900 43200 = 43200"
    using t2 by (simp add: example_env_def)
  have c: "checkBudgetInputs example_env
       [VSTR ''test-proposal'', VSTR ''https://forum.hemis.org/t/test-proposal'', VNUM 2,
        VNUM 43199, VSTR ''D9oc6C3dttUbv8zd7zGNq1qKBGf4ZQ1XEE'', VNUM 500]
     = Inl (JSONRPCError RPC_INVALID_PARAMETER
             ''Invalid block start - must be a budget cycle block. Next valid block: 43200'')"
    using chk [of example_env
       "[VSTR ''test-proposal'', VSTR ''https://forum.hemis.org/t/test-proposal'', VNUM 2,
        VNUM 43199, VSTR ''D9oc6C3dttUbv8zd7zGNq1qKBGf4ZQ1XEE'', VNUM 500]"
       "''test-proposal''" "''https://forum.hemis.org/t/test-proposal''" 2 43199,
       THEN conjunct1]
    by (simp add: example_simps show_int_def show_nat.simps digit_char_def)
  have d: "checkBudgetInputs example_env
       [VSTR ''test-proposal'', VSTR ''https://forum.hemis.org/t/test-proposal'', VNUM 2,
        VNUM 43200, VSTR ''D9oc6C3dttUbv8zd7zGNq1qKBGf4ZQ1XEE'', VNUM 500]
     = Inr \<lparr> out_strProposalName = ''test-proposal'',
             out_strURL = ''https://forum.hemis.org/t/test-proposal'',
             out_nPaymentCount = 2, out_nBlockStart = 43200,
             out_address = ''D9oc6C3dttUbv8zd7zGNq1qKBGf4ZQ1XEE'', out_nAmount = 50000000000 \<rparr>"
    using chk [of example_env
       "[VSTR ''test-proposal'', VSTR ''https://forum.hemis.org/t/test-proposal'', VNUM 2,
        VNUM 43200, VSTR ''D9oc6C3dttUbv8zd7zGNq1qKBGf4ZQ1XEE'', VNUM 500]"
       "''test-proposal''" "''https://forum.hemis.org/t/test-proposal''" 2 43200,
       THEN conjunct2, of "''D9oc6C3dttUbv8zd7zGNq1qKBGf4ZQ1XEE''" 50000000000]
    by (simp add: example_simps)
  from a b c d show ?thesis by simp
qed

text \<open>
  The claim as stated, for every chain height, fails: at the chain height 2147483647
  with a cycle of 43200 blocks the number \<open>h - (h mod c) + c\<close> is 2147515200, which no
  32-bit \<^verbatim>\<open>int\<close> holds; \<^verbatim>\<open>getnextsuperblock\<close> returns -2147452096, which is not greater
  than the chain height, and \<^verbatim>\<open>nBlockMin\<close> is that negative number too: it is the one that
  \<^verbatim>\<open>checkBudgetInputs\<close> names as the next valid block.
\<close>

theorem next_superblock_overflow_counterexample:
  "Height example_env_high = 2147483647
   \<and> nBudgetCycleBlocks (GetConsensus example_env_high) = 43200
   \<and> (2147483647::int) - 2147483647 mod 43200 + 43200 = 2147515200
   \<and> getnextsuperblock example_env_high ''usage'' \<lparr>fHelp = False, params = []\<rparr>
       = Inr (VNUM (- 2147452096))
   \<and> nNext 2147483647 43200 = - 2147452096
   \<and> nBlockMin 2147483647 43200 = - 2147452096
   \<and> \<not> 2147483647 < nNext 2147483647 43200
   \<and> GetChainTip example_env_high = Some 2147483647
   \<and> checkBudgetInputs example_env_high
       [VSTR ''test-proposal'', VSTR ''https://forum.hemis.org/t/test-proposal'', VNUM 2,
        VNUM 1000, VSTR ''D9oc6C3dttUbv8zd7zGNq1qKBGf4ZQ1XEE'', VNUM 500]
     = Inl (JSONRPCError RPC_INVALID_PARAMETER
             ''Invalid block start - must be a budget cycle block. Next valid block: -2147452096'')"
  by (simp add: getnextsuperblock_def checkBudgetInputs_def example_env_high_def example_simps
        nNext_def nBlockMin_def int32_def signed_modulo_int_def show_int_def show_nat.simps
        digit_char_def)

subsection \<open>The checks of \<^verbatim>\<open>checkBudgetInputs\<close>\<close>

text \<open>
  Claim C5. A payment count below 1 and a payment count above \<open>nMaxProposalPayments\<close> are
  rejected: whatever the other arguments are, the function raises an error; and when
  the name and the URL have passed their checks, the error is the one of the payment
  count (for a count above the maximum, the text that names the maximum). The witness
  is the proposal with 13 payments under a maximum of 12, and the one with 0 payments.
\<close>

theorem payment_count_rejected:
  assumes cnt: "get_int env (params_at ps 2) = Inr n"
  shows "((n < 1 \<or> nMaxProposalPayments (GetConsensus env) < n) \<longrightarrow> isl (checkBudgetInputs env ps))
       \<and> (get_str env (params_at ps 0) = Inr s0 \<and> length (SanitizeString env s0) \<le> 20
          \<and> get_str env (params_at ps 1) = Inr s1 \<and> fst (validateURL env (SanitizeString env s1))
          \<longrightarrow> (n < 1 \<longrightarrow> checkBudgetInputs env ps =
                  Inl (JSONRPCError RPC_INVALID_PARAMETER ''Invalid payment count, must be more than zero.''))
            \<and> (1 \<le> n \<and> nMaxProposalPayments (GetConsensus env) < n \<longrightarrow> checkBudgetInputs env ps =
                  Inl (JSONRPCError RPC_INVALID_PARAMETER
                        (''Invalid payment count, must be <= ''
                         @ show_int (nMaxProposalPayments (GetConsensus env))))))"
proof -
  have a: "isl (checkBudgetInputs env ps)"
    if "n < 1 \<or> nMaxProposalPayments (GetConsensus env) < n"
    using that cnt
    by (auto simp: checkBudgetInputs_def Let_def case_prod_beta split: sum.split)
  have b: "checkBudgetInputs env ps =
             Inl (JSONRPCError RPC_INVALID_PARAMETER ''Invalid payment count, must be more than zero.'')"
    if "get_str env (params_at ps 0) = Inr s0" "length (SanitizeString env s0) \<le> 20"
       "get_str env (params_at ps 1) = Inr s1" "fst (validateURL env (SanitizeString env s1))"
       "n < 1"
    using that cnt
    by (simp add: checkBudgetInputs_def Let_def case_prod_beta)
  have c: "checkBudgetInputs env ps =
             Inl (JSONRPCError RPC_INVALID_PARAMETER
                   (''Invalid payment count, must be <= ''
                    @ show_int (nMaxProposalPayments (GetConsensus env))))"
    if "get_str env (params_at ps 0) = Inr s0" "length (SanitizeString env s0) \<le> 20"
       "get_str env (params_at ps 1) = Inr s1" "fst (validateURL env (SanitizeString env s1))"
       "1 \<le> n" "nMaxProposalPayments (GetConsensus env) < n"
    using that cnt
    by (simp add: checkBudgetInputs_def Let_def case_prod_beta)
  from a b c show ?thesis by blast
qed

theorem payment_count_rejected_witness:
  "checkBudgetInputs example_env
     [VSTR ''test-proposal'', VSTR ''https://forum.hemis.org/t/test-proposal'', VNUM 13,
      VNUM 43200, VSTR ''D9oc6C3dttUbv8zd7zGNq1qKBGf4ZQ1XEE'', VNUM 500]
   = Inl (JSONRPCError RPC_INVALID_PARAMETER ''Invalid payment count, must be <= 12'')
   \<and> checkBudgetInputs example_env
     [VSTR ''test-proposal'', VSTR ''https://forum.hemis.org/t/test-proposal'', VNUM 0,
      VNUM 43200, VSTR ''D9oc6C3dttUbv8zd7zGNq1qKBGf4ZQ1XEE'', VNUM 500]
   = Inl (JSONRPCError RPC_INVALID_PARAMETER ''Invalid payment count, must be more than zero.'')"
  using payment_count_rejected [of example_env
     "[VSTR ''test-proposal'', VSTR ''https://forum.hemis.org/t/test-proposal'', VNUM 13,
      VNUM 43200, VSTR ''D9oc6C3dttUbv8zd7zGNq1qKBGf4ZQ1XEE'', VNUM 500]" 13
     "''test-proposal''" "''https://forum.hemis.org/t/test-proposal''"]
    payment_count_rejected [of example_env
     "[VSTR ''test-proposal'', VSTR ''https://forum.hemis.org/t/test-proposal'', VNUM 0,
      VNUM 43200, VSTR ''D9oc6C3dttUbv8zd7zGNq1qKBGf4ZQ1XEE'', VNUM 500]" 0
     "''test-proposal''" "''https://forum.hemis.org/t/test-proposal''"]
  by (simp add: example_simps show_int_def show_nat.simps digit_char_def)

text \<open>
  Claim C3, as the code has it. Once the name, the URL, the payment count and the chain
  tip have passed (tip height \<open>h \<ge> 0\<close>, cycle length \<open>c > 0\<close>), and where the next cycle
  boundary \<open>h - (h mod c) + c\<close> does not exceed 2147483647, the largest 32-bit \<^verbatim>\<open>int\<close>,
  a start height that is below that boundary or is not a multiple of \<open>c\<close> is rejected
  with the block-start error, which names the boundary. With an address text and an
  amount that convert, the converse holds too: the function raises the block-start
  error exactly when the start height is below the boundary or not a multiple of the
  cycle length. The witness is the start 1000 at height 900 with a cycle of 43200
  blocks, which is rejected, and the start 43200, which is not.
\<close>

theorem block_start_rejected_iff:
  assumes name: "get_str env (params_at ps 0) = Inr s0" "length (SanitizeString env s0) \<le> 20"
      and url: "get_str env (params_at ps 1) = Inr s1" "fst (validateURL env (SanitizeString env s1))"
      and cnt: "get_int env (params_at ps 2) = Inr n" "1 \<le> n" "n \<le> nMaxProposalPayments (GetConsensus env)"
      and tip: "GetChainTip env = Some h" "0 \<le> h"
      and cyc: "nBudgetCycleBlocks (GetConsensus env) = c" "0 < c"
      and fit: "h - h mod c + c \<le> 2147483647"
      and start: "get_int env (params_at ps 3) = Inr start"
  shows "((start < h - h mod c + c \<or> start mod c \<noteq> 0) \<longrightarrow>
            checkBudgetInputs env ps =
              Inl (JSONRPCError RPC_INVALID_PARAMETER
                    (''Invalid block start - must be a budget cycle block. Next valid block: ''
                     @ show_int (h - h mod c + c))))
       \<and> (get_str env (params_at ps 4) = Inr s4 \<and> AmountFromValue env (params_at ps 5) = Inr a \<longrightarrow>
            ((checkBudgetInputs env ps =
               Inl (JSONRPCError RPC_INVALID_PARAMETER
                    (''Invalid block start - must be a budget cycle block. Next valid block: ''
                     @ show_int (h - h mod c + c))))
             = (start < h - h mod c + c \<or> start mod c \<noteq> 0)))"
proof -
  have bm: "nBlockMin h c = h - h mod c + c"
    using tip(2) cyc(2) fit by (simp only: nBlockMin_eq_nNext nNext_fits)
  have al: "(start smod c \<noteq> 0) = (start mod c \<noteq> 0)"
    using cyc(2) by (simp add: smod_eq_0_iff mod_eq_0_iff_dvd)
  have rej: "checkBudgetInputs env ps =
              Inl (JSONRPCError RPC_INVALID_PARAMETER
                    (''Invalid block start - must be a budget cycle block. Next valid block: ''
                     @ show_int (h - h mod c + c)))"
    if "start < h - h mod c + c \<or> start mod c \<noteq> 0"
    using that name url cnt tip(1) cyc(1) start
    by (auto simp add: checkBudgetInputs_def Let_def case_prod_beta bm al)
  have acc: "checkBudgetInputs env ps \<noteq>
              Inl (JSONRPCError RPC_INVALID_PARAMETER
                    (''Invalid block start - must be a budget cycle block. Next valid block: ''
                     @ show_int (h - h mod c + c)))"
    if "\<not> (start < h - h mod c + c \<or> start mod c \<noteq> 0)"
       "get_str env (params_at ps 4) = Inr s4" "AmountFromValue env (params_at ps 5) = Inr a"
    using that name url cnt tip(1) cyc(1) start
    by (auto simp add: checkBudgetInputs_def Let_def case_prod_beta bm al)
  show ?thesis
  proof (intro conjI impI)
    assume "start < h - h mod c + c \<or> start mod c \<noteq> 0"
    then show "checkBudgetInputs env ps =
              Inl (JSONRPCError RPC_INVALID_PARAMETER
                    (''Invalid block start - must be a budget cycle block. Next valid block: ''
                     @ show_int (h - h mod c + c)))"
      by (rule rej)
  next
    assume late: "get_str env (params_at ps 4) = Inr s4 \<and> AmountFromValue env (params_at ps 5) = Inr a"
    show "(checkBudgetInputs env ps =
              Inl (JSONRPCError RPC_INVALID_PARAMETER
                    (''Invalid block start - must be a budget cycle block. Next valid block: ''
                     @ show_int (h - h mod c + c))))
          = (start < h - h mod c + c \<or> start mod c \<noteq> 0)"
    proof (cases "start < h - h mod c + c \<or> start mod c \<noteq> 0")
      case True
      with rej show ?thesis by simp
    next
      case False
      with acc late show ?thesis by simp
    qed
  qed
qed

theorem block_start_rejected_iff_witness:
  "checkBudgetInputs example_env
     [VSTR ''test-proposal'', VSTR ''https://forum.hemis.org/t/test-proposal'', VNUM 2,
      VNUM 1000, VSTR ''D9oc6C3dttUbv8zd7zGNq1qKBGf4ZQ1XEE'', VNUM 500]
   = Inl (JSONRPCError RPC_INVALID_PARAMETER
           ''Invalid block start - must be a budget cycle block. Next valid block: 43200'')
   \<and> checkBudgetInputs example_env
     [VSTR ''test-proposal'', VSTR ''https://forum.hemis.org/t/test-proposal'', VNUM 2,
      VNUM 43200, VSTR ''D9oc6C3dttUbv8zd7zGNq1qKBGf4ZQ1XEE'', VNUM 500]
   \<noteq> Inl (JSONRPCError RPC_INVALID_PARAMETER
           ''Invalid block start - must be a budget cycle block. Next valid block: 43200'')"
  using block_start_rejected_iff [of example_env
     "[VSTR ''test-proposal'', VSTR ''https://forum.hemis.org/t/test-proposal'', VNUM 2,
      VNUM 1000, VSTR ''D9oc6C3dttUbv8zd7zGNq1qKBGf4ZQ1XEE'', VNUM 500]"
     "''test-proposal''" "''https://forum.hemis.org/t/test-proposal''" 2 900 43200 1000
     "''D9oc6C3dttUbv8zd7zGNq1qKBGf4ZQ1XEE''" 50000000000]
   block_start_rejected_iff [of example_env
     "[VSTR ''test-proposal'', VSTR ''https://forum.hemis.org/t/test-proposal'', VNUM 2,
      VNUM 43200, VSTR ''D9oc6C3dttUbv8zd7zGNq1qKBGf4ZQ1XEE'', VNUM 500]"
     "''test-proposal''" "''https://forum.hemis.org/t/test-proposal''" 2 900 43200 43200
     "''D9oc6C3dttUbv8zd7zGNq1qKBGf4ZQ1XEE''" 50000000000]
  by (simp add: example_simps show_int_def show_nat.simps digit_char_def)

text \<open>
  The claim as stated, for every chain height, fails: with the chain tip at height
  2147483647 and a cycle of 43200 blocks the next cycle boundary is 2147515200, and
  the start height 2147472000 is below it. The bound that the function computes in 32
  bits is negative, and the start height is accepted.
\<close>

theorem block_start_overflow_counterexample:
  "GetChainTip example_env_high = Some 2147483647
   \<and> nBudgetCycleBlocks (GetConsensus example_env_high) = 43200
   \<and> (2147472000::int) < 2147483647 - 2147483647 mod 43200 + 43200
   \<and> checkBudgetInputs example_env_high
     [VSTR ''test-proposal'', VSTR ''https://forum.hemis.org/t/test-proposal'', VNUM 2,
      VNUM 2147472000, VSTR ''D9oc6C3dttUbv8zd7zGNq1qKBGf4ZQ1XEE'', VNUM 500]
   = Inr \<lparr> out_strProposalName = ''test-proposal'',
           out_strURL = ''https://forum.hemis.org/t/test-proposal'',
           out_nPaymentCount = 2, out_nBlockStart = 2147472000,
           out_address = ''D9oc6C3dttUbv8zd7zGNq1qKBGf4ZQ1XEE'', out_nAmount = 50000000000 \<rparr>"
  by (simp add: checkBudgetInputs_def example_env_high_def example_simps nBlockMin_def int32_def
        signed_modulo_int_def)

text \<open>
  Claim C4, as the code has it. Once every earlier check has passed and the amount
  argument converts to \<open>a\<close>, the function accepts exactly the amounts from \<open>10 * COIN\<close>
  up to the total budget of the start height: an amount below \<open>10 * COIN\<close> is rejected
  with the error that names the minimum of 10, an amount above
  \<open>GetTotalBudget nBlockStart\<close> with the error that names that maximum, and every other
  amount is returned with the other inputs.
\<close>

theorem amount_bounds:
  assumes name: "get_str env (params_at ps 0) = Inr s0" "length (SanitizeString env s0) \<le> 20"
      and url: "get_str env (params_at ps 1) = Inr s1" "fst (validateURL env (SanitizeString env s1))"
      and cnt: "get_int env (params_at ps 2) = Inr n" "1 \<le> n" "n \<le> nMaxProposalPayments (GetConsensus env)"
      and tip: "GetChainTip env = Some h"
      and start: "get_int env (params_at ps 3) = Inr start"
                 "nBlockMin h (nBudgetCycleBlocks (GetConsensus env)) \<le> start"
                 "start smod nBudgetCycleBlocks (GetConsensus env) = 0"
      and addr: "get_str env (params_at ps 4) = Inr s4" "IsValidDestination env (DecodeDestination env s4)"
      and amt: "AmountFromValue env (params_at ps 5) = Inr a"
  shows "checkBudgetInputs env ps =
          (if a < 10 * COIN env
           then Inl (JSONRPCError RPC_INVALID_PARAMETER
                  (''Invalid amount - Payment of '' @ FormatMoney env a
                   @ '' is less than minimum 10 '' @ CURRENCY_UNIT env @ '' allowed''))
           else if GetTotalBudget env start < a
           then Inl (JSONRPCError RPC_INVALID_PARAMETER
                  (''Invalid amount - Payment of '' @ FormatMoney env a
                   @ '' more than max of '' @ FormatMoney env (GetTotalBudget env start)))
           else Inr \<lparr> out_strProposalName = SanitizeString env s0, out_strURL = SanitizeString env s1,
                      out_nPaymentCount = n, out_nBlockStart = start,
                      out_address = DecodeDestination env s4, out_nAmount = a \<rparr>)
       \<and> ((\<exists>inputs. checkBudgetInputs env ps = Inr inputs)
            = (10 * COIN env \<le> a \<and> a \<le> GetTotalBudget env start))"
proof -
  have eq: "checkBudgetInputs env ps =
          (if a < 10 * COIN env
           then Inl (JSONRPCError RPC_INVALID_PARAMETER
                  (''Invalid amount - Payment of '' @ FormatMoney env a
                   @ '' is less than minimum 10 '' @ CURRENCY_UNIT env @ '' allowed''))
           else if GetTotalBudget env start < a
           then Inl (JSONRPCError RPC_INVALID_PARAMETER
                  (''Invalid amount - Payment of '' @ FormatMoney env a
                   @ '' more than max of '' @ FormatMoney env (GetTotalBudget env start)))
           else Inr \<lparr> out_strProposalName = SanitizeString env s0, out_strURL = SanitizeString env s1,
                      out_nPaymentCount = n, out_nBlockStart = start,
                      out_address = DecodeDestination env s4, out_nAmount = a \<rparr>)"
    using assms by (simp add: checkBudgetInputs_def Let_def case_prod_beta)
  have "(\<exists>inputs. checkBudgetInputs env ps = Inr inputs)
            = (10 * COIN env \<le> a \<and> a \<le> GetTotalBudget env start)"
    by (simp only: eq) auto
  with eq show ?thesis by (rule conjI)
qed

theorem amount_bounds_witness:
  "checkBudgetInputs example_env
     [VSTR ''test-proposal'', VSTR ''https://forum.hemis.org/t/test-proposal'', VNUM 2,
      VNUM 43200, VSTR ''D9oc6C3dttUbv8zd7zGNq1qKBGf4ZQ1XEE'', VNUM 500]
   = Inr \<lparr> out_strProposalName = ''test-proposal'',
           out_strURL = ''https://forum.hemis.org/t/test-proposal'',
           out_nPaymentCount = 2, out_nBlockStart = 43200,
           out_address = ''D9oc6C3dttUbv8zd7zGNq1qKBGf4ZQ1XEE'', out_nAmount = 50000000000 \<rparr>
   \<and> checkBudgetInputs example_env
     [VSTR ''test-proposal'', VSTR ''https://forum.hemis.org/t/test-proposal'', VNUM 2,
      VNUM 43200, VSTR ''D9oc6C3dttUbv8zd7zGNq1qKBGf4ZQ1XEE'', VNUM 50000]
   = Inl (JSONRPCError RPC_INVALID_PARAMETER
           ''Invalid amount - Payment of 5000000000000 more than max of 4320000000000'')"
  using amount_bounds [of example_env
     "[VSTR ''test-proposal'', VSTR ''https://forum.hemis.org/t/test-proposal'', VNUM 2,
      VNUM 43200, VSTR ''D9oc6C3dttUbv8zd7zGNq1qKBGf4ZQ1XEE'', VNUM 500]"
     "''test-proposal''" "''https://forum.hemis.org/t/test-proposal''" 2 900 43200
     "''D9oc6C3dttUbv8zd7zGNq1qKBGf4ZQ1XEE''" 50000000000]
   amount_bounds [of example_env
     "[VSTR ''test-proposal'', VSTR ''https://forum.hemis.org/t/test-proposal'', VNUM 2,
      VNUM 43200, VSTR ''D9oc6C3dttUbv8zd7zGNq1qKBGf4ZQ1XEE'', VNUM 50000]"
     "''test-proposal''" "''https://forum.hemis.org/t/test-proposal''" 2 900 43200
     "''D9oc6C3dttUbv8zd7zGNq1qKBGf4ZQ1XEE''" 5000000000000]
  by (simp add: example_simps nBlockMin_def int32_def signed_modulo_int_def show_int_def
        show_nat.simps digit_char_def)

text \<open>
  The claim as stated, that every amount above zero and up to the total budget is
  accepted, fails: an amount of 5 coins lies within those bounds and is rejected for
  being below the minimum of 10.
\<close>

theorem amount_above_zero_counterexample:
  "AmountFromValue example_env (VNUM 5) = Inr 500000000
   \<and> (0::int) < 500000000
   \<and> 500000000 \<le> GetTotalBudget example_env 43200
   \<and> checkBudgetInputs example_env
     [VSTR ''test-proposal'', VSTR ''https://forum.hemis.org/t/test-proposal'', VNUM 2,
      VNUM 43200, VSTR ''D9oc6C3dttUbv8zd7zGNq1qKBGf4ZQ1XEE'', VNUM 5]
   = Inl (JSONRPCError RPC_INVALID_PARAMETER
           ''Invalid amount - Payment of 500000000 is less than minimum 10 HMS allowed'')"
  by (simp add: checkBudgetInputs_def example_simps nBlockMin_def int32_def signed_modulo_int_def
        show_int_def show_nat.simps digit_char_def)

text \<open>
  Claim C8. A proposal whose sanitized name has more than 20 characters is rejected with
  the error of the name limit, whatever the other arguments are; \<^verbatim>\<open>submitbudget\<close> then
  raises that error and leaves the state of the engine as it was, whatever the engine's
  methods do. A name of 20 characters or fewer passes: when the other checks pass too,
  the inputs are returned, the sanitized name among them. The witness is a name of 21
  characters and a name of 20.
\<close>

theorem proposal_name_limit:
  assumes name: "get_str env (params_at ps 0) = Inr s0"
  shows "(20 < length (SanitizeString env s0) \<longrightarrow>
            checkBudgetInputs env ps =
              Inl (JSONRPCError RPC_INVALID_PARAMETER ''Invalid proposal name, limit of 20 characters.'')
          \<and> (\<forall>eng strHelp request s. params request = ps \<and> \<not> fHelp request \<and> length ps = 7 \<longrightarrow>
               submitbudget env (eng :: ('fb, 's) budget_engine) strHelp request s =
                 (Inl (JSONRPCError RPC_INVALID_PARAMETER ''Invalid proposal name, limit of 20 characters.''), s)))
       \<and> (length (SanitizeString env s0) \<le> 20
          \<and> get_str env (params_at ps 1) = Inr s1 \<and> fst (validateURL env (SanitizeString env s1))
          \<and> get_int env (params_at ps 2) = Inr n \<and> 1 \<le> n \<and> n \<le> nMaxProposalPayments (GetConsensus env)
          \<and> GetChainTip env = Some h
          \<and> get_int env (params_at ps 3) = Inr start
          \<and> nBlockMin h (nBudgetCycleBlocks (GetConsensus env)) \<le> start
          \<and> start smod nBudgetCycleBlocks (GetConsensus env) = 0
          \<and> get_str env (params_at ps 4) = Inr s4 \<and> IsValidDestination env (DecodeDestination env s4)
          \<and> AmountFromValue env (params_at ps 5) = Inr a
          \<and> 10 * COIN env \<le> a \<and> a \<le> GetTotalBudget env start
          \<longrightarrow> checkBudgetInputs env ps =
                Inr \<lparr> out_strProposalName = SanitizeString env s0, out_strURL = SanitizeString env s1,
                      out_nPaymentCount = n, out_nBlockStart = start,
                      out_address = DecodeDestination env s4, out_nAmount = a \<rparr>)"
proof (intro conjI impI allI)
  assume long: "20 < length (SanitizeString env s0)"
  then show rej: "checkBudgetInputs env ps =
              Inl (JSONRPCError RPC_INVALID_PARAMETER ''Invalid proposal name, limit of 20 characters.'')"
    using name by (simp add: checkBudgetInputs_def Let_def)
  fix eng :: "('fb, 's) budget_engine" and strHelp and request :: JSONRPCRequest and s :: 's
  assume "params request = ps \<and> \<not> fHelp request \<and> length ps = 7"
  then show "submitbudget env eng strHelp request s =
                 (Inl (JSONRPCError RPC_INVALID_PARAMETER ''Invalid proposal name, limit of 20 characters.''), s)"
    using rej by (simp add: submitbudget_def)
next
  assume "length (SanitizeString env s0) \<le> 20
          \<and> get_str env (params_at ps 1) = Inr s1 \<and> fst (validateURL env (SanitizeString env s1))
          \<and> get_int env (params_at ps 2) = Inr n \<and> 1 \<le> n \<and> n \<le> nMaxProposalPayments (GetConsensus env)
          \<and> GetChainTip env = Some h
          \<and> get_int env (params_at ps 3) = Inr start
          \<and> nBlockMin h (nBudgetCycleBlocks (GetConsensus env)) \<le> start
          \<and> start smod nBudgetCycleBlocks (GetConsensus env) = 0
          \<and> get_str env (params_at ps 4) = Inr s4 \<and> IsValidDestination env (DecodeDestination env s4)
          \<and> AmountFromValue env (params_at ps 5) = Inr a
          \<and> 10 * COIN env \<le> a \<and> a \<le> GetTotalBudget env start"
  then show "checkBudgetInputs env ps =
                Inr \<lparr> out_strProposalName = SanitizeString env s0, out_strURL = SanitizeString env s1,
                      out_nPaymentCount = n, out_nBlockStart = start,
                      out_address = DecodeDestination env s4, out_nAmount = a \<rparr>"
    using name by (simp add: checkBudgetInputs_def Let_def case_prod_beta)
qed

theorem proposal_name_limit_witness:
  "checkBudgetInputs example_env
     [VSTR ''abcdefghijklmnopqrstu'', VSTR ''https://forum.hemis.org/t/test-proposal'', VNUM 2,
      VNUM 43200, VSTR ''D9oc6C3dttUbv8zd7zGNq1qKBGf4ZQ1XEE'', VNUM 500, VNUM 77]
   = Inl (JSONRPCError RPC_INVALID_PARAMETER ''Invalid proposal name, limit of 20 characters.'')
   \<and> submitbudget example_env example_engine ''usage''
       \<lparr> fHelp = False, params =
         [VSTR ''abcdefghijklmnopqrstu'', VSTR ''https://forum.hemis.org/t/test-proposal'', VNUM 2,
          VNUM 43200, VSTR ''D9oc6C3dttUbv8zd7zGNq1qKBGf4ZQ1XEE'', VNUM 500, VNUM 77] \<rparr> example_s
   = (Inl (JSONRPCError RPC_INVALID_PARAMETER ''Invalid proposal name, limit of 20 characters.''), example_s)
   \<and> checkBudgetInputs example_env
     [VSTR ''abcdefghijklmnopqrst'', VSTR ''https://forum.hemis.org/t/test-proposal'', VNUM 2,
      VNUM 43200, VSTR ''D9oc6C3dttUbv8zd7zGNq1qKBGf4ZQ1XEE'', VNUM 500, VNUM 77]
   = Inr \<lparr> out_strProposalName = ''abcdefghijklmnopqrst'',
           out_strURL = ''https://forum.hemis.org/t/test-proposal'',
           out_nPaymentCount = 2, out_nBlockStart = 43200,
           out_address = ''D9oc6C3dttUbv8zd7zGNq1qKBGf4ZQ1XEE'', out_nAmount = 50000000000 \<rparr>"
  using proposal_name_limit [of example_env
     "[VSTR ''abcdefghijklmnopqrstu'', VSTR ''https://forum.hemis.org/t/test-proposal'', VNUM 2,
      VNUM 43200, VSTR ''D9oc6C3dttUbv8zd7zGNq1qKBGf4ZQ1XEE'', VNUM 500, VNUM 77]"
     "''abcdefghijklmnopqrstu''", where 'fb = nat and 's = example_state]
   proposal_name_limit [of example_env
     "[VSTR ''abcdefghijklmnopqrst'', VSTR ''https://forum.hemis.org/t/test-proposal'', VNUM 2,
      VNUM 43200, VSTR ''D9oc6C3dttUbv8zd7zGNq1qKBGf4ZQ1XEE'', VNUM 500, VNUM 77]"
     "''abcdefghijklmnopqrst''" "''https://forum.hemis.org/t/test-proposal''" 2 900 43200
     "''D9oc6C3dttUbv8zd7zGNq1qKBGf4ZQ1XEE''" 50000000000, where 'fb = nat and 's = example_state]
  by (simp add: example_simps nBlockMin_def int32_def signed_modulo_int_def)

subsection \<open>Listing proposals\<close>

text \<open>The loop of \<^verbatim>\<open>getbudgetinfo\<close> appends the JSON objects of the valid proposals, in order.\<close>

lemma getbudgetinfo_loop_filter:
  "getbudgetinfo_loop env h ret ps =
     ret @ map (\<lambda>p. VOBJ (budgetToJSON env p [] h)) (filter IsValid ps)"
  by (induction ps arbitrary: ret) (simp_all add: Let_def)

text \<open>
  Claim C10. Called without a name, \<^verbatim>\<open>getbudgetinfo\<close> returns the JSON objects of exactly
  those proposals of \<^verbatim>\<open>GetAllProposalsOrdered\<close> for which \<^verbatim>\<open>IsValid\<close> holds, in their
  order, and skips every other proposal. Called with a name, it returns the object of
  the proposal that \<^verbatim>\<open>FindProposalByName\<close> finds for the sanitized name, whether that
  proposal is valid or not, and raises "Unknown proposal name" only when none is
  found. The witness lists two valid proposals out of three, and asks by name for the
  invalid one and for a name that no proposal has.
\<close>

theorem getbudgetinfo_listing:
  "(\<not> fHelp request \<and> params request = [] \<longrightarrow>
      getbudgetinfo env strHelp request =
        Inr (VARR (map (\<lambda>p. VOBJ (budgetToJSON env p [] (GetBestHeight env)))
                    (filter IsValid (GetAllProposalsOrdered env)))))
   \<and> (\<not> fHelp request \<and> params request = [v] \<and> get_str env v = Inr s0 \<longrightarrow>
      getbudgetinfo env strHelp request =
        (case FindProposalByName env (SanitizeString env s0) of
           None \<Rightarrow> Inl (runtime_error ''Unknown proposal name'')
         | Some p \<Rightarrow> Inr (VARR [VOBJ (budgetToJSON env p [] (GetBestHeight env))])))"
  by (simp add: getbudgetinfo_def getbudgetinfo_loop_filter Let_def params_at_def
        split: option.split)

theorem getbudgetinfo_listing_witness:
  "getbudgetinfo example_env ''usage'' \<lparr> fHelp = False, params = [] \<rparr> =
     Inr (VARR [VOBJ (budgetToJSON example_env (example_proposals ! 0) [] 900),
                VOBJ (budgetToJSON example_env (example_proposals ! 2) [] 900)])
   \<and> \<not> IsValid (example_proposals ! 1)
   \<and> getbudgetinfo example_env ''usage'' \<lparr> fHelp = False, params = [VSTR ''parks''] \<rparr> =
     Inr (VARR [VOBJ (budgetToJSON example_env (example_proposals ! 1) [] 900)])
   \<and> getbudgetinfo example_env ''usage'' \<lparr> fHelp = False, params = [VSTR ''bridge''] \<rparr> =
     Inl (runtime_error ''Unknown proposal name'')"
  using getbudgetinfo_listing [of "\<lparr> fHelp = False, params = [] \<rparr>" example_env "''usage''"]
        getbudgetinfo_listing [of "\<lparr> fHelp = False, params = [VSTR ''parks''] \<rparr>" example_env "''usage''"
          "VSTR ''parks''" "''parks''"]
        getbudgetinfo_listing [of "\<lparr> fHelp = False, params = [VSTR ''bridge''] \<rparr>" example_env "''usage''"
          "VSTR ''bridge''" "''bridge''"]
  by (simp add: example_simps example_proposals_def example_NewProposal_def)

subsection \<open>Casting a signed vote\<close>

text \<open>
  Claim C7. \<^verbatim>\<open>gmbudgetrawvote\<close> hands a vote to \<^verbatim>\<open>ProcessProposalVote\<close> only after the
  gamemaster was found and the signature verified: what the handler returns and the
  state it leaves depend on \<^verbatim>\<open>ProcessProposalVote\<close> only at votes for which
  \<open>vote_admitted\<close> holds. For a request whose six arguments convert: when the gamemaster
  is not in the list, or when the signature does not verify against its key, the
  handler returns the failure text to the caller and leaves the state of the engine
  as it was; when both checks pass, the result and the state are those of
  \<^verbatim>\<open>ProcessProposalVote\<close> on the vote.
\<close>

theorem rawvote_checked_before_processing:
  "(\<forall>eng'. (\<forall>vote s'. vote_admitted env vote \<longrightarrow>
                ProcessProposalVote eng' vote s' = ProcessProposalVote eng vote s')
            \<longrightarrow> gmbudgetrawvote env (eng' :: ('fb, 's) budget_engine) strHelp request s
                = gmbudgetrawvote env (eng :: ('fb, 's) budget_engine) strHelp request s)
   \<and> (\<not> fHelp request \<and> length (params request) = 6
      \<and> ParseHashV env (params_at (params request) 0) ''gm tx hash'' = Inr hashGmTx
      \<and> get_int env (params_at (params request) 1) = Inr nGmTxIndex
      \<and> ParseHashV env (params_at (params request) 2) ''Proposal hash'' = Inr hashProposal
      \<and> get_str env (params_at (params request) 3) = Inr strVote
      \<and> parseVote strVote = Inr nVote
      \<and> get_int64 env (params_at (params request) 4) = Inr nTime
      \<and> get_str env (params_at (params request) 5) = Inr strSig
      \<and> DecodeBase64 env strSig = (vchSig, False)
      \<and> vote = \<lparr> GetVin = NewCTxIn hashGmTx nGmTxIndex, GetProposalHash = hashProposal,
                  GetDirection = nVote, GetTime = nTime, GetVchSig = vchSig \<rparr>
      \<longrightarrow>
        (gamemasterman_Find env (prevout (GetVin vote)) = None \<longrightarrow>
           gmbudgetrawvote env eng strHelp request s =
             (Inr (VSTR (''Failure to find gamemaster in list : '' @ CTxIn_ToString env (GetVin vote))), s))
      \<and> (\<forall>pgm. gamemasterman_Find env (prevout (GetVin vote)) = Some pgm
               \<and> \<not> CheckSignature env vote (GetID env (pubKeyGamemaster pgm)) \<longrightarrow>
           gmbudgetrawvote env eng strHelp request s = (Inr (VSTR ''Failure to verify signature.''), s))
      \<and> (\<forall>pgm. gamemasterman_Find env (prevout (GetVin vote)) = Some pgm
               \<and> CheckSignature env vote (GetID env (pubKeyGamemaster pgm)) \<longrightarrow>
           gmbudgetrawvote env eng strHelp request s =
             (case ProcessProposalVote eng vote s of
                ((fProcessed, state), s1) \<Rightarrow>
                  (Inr (VSTR (if fProcessed then ''Voted successfully''
                              else ''Error voting : '' @ GetRejectReason state @ ''. ''
                                   @ GetDebugMessage state)), s1))))"
proof (intro conjI allI impI)
  fix eng' :: "('fb, 's) budget_engine"
  assume same: "\<forall>vote s'. vote_admitted env vote \<longrightarrow>
                ProcessProposalVote eng' vote s' = ProcessProposalVote eng vote s'"
  show "gmbudgetrawvote env eng' strHelp request s = gmbudgetrawvote env eng strHelp request s"
    using same
    by (auto simp: gmbudgetrawvote_def Let_def vote_admitted_def
             split: sum.split option.split prod.split)
next
  assume a: "\<not> fHelp request \<and> length (params request) = 6
      \<and> ParseHashV env (params_at (params request) 0) ''gm tx hash'' = Inr hashGmTx
      \<and> get_int env (params_at (params request) 1) = Inr nGmTxIndex
      \<and> ParseHashV env (params_at (params request) 2) ''Proposal hash'' = Inr hashProposal
      \<and> get_str env (params_at (params request) 3) = Inr strVote
      \<and> parseVote strVote = Inr nVote
      \<and> get_int64 env (params_at (params request) 4) = Inr nTime
      \<and> get_str env (params_at (params request) 5) = Inr strSig
      \<and> DecodeBase64 env strSig = (vchSig, False)
      \<and> vote = \<lparr> GetVin = NewCTxIn hashGmTx nGmTxIndex, GetProposalHash = hashProposal,
                  GetDirection = nVote, GetTime = nTime, GetVchSig = vchSig \<rparr>"
     and n: "gamemasterman_Find env (prevout (GetVin vote)) = None"
  show "gmbudgetrawvote env eng strHelp request s =
             (Inr (VSTR (''Failure to find gamemaster in list : '' @ CTxIn_ToString env (GetVin vote))), s)"
    using a n by (simp add: gmbudgetrawvote_def Let_def)
next
  fix pgm
  assume a: "\<not> fHelp request \<and> length (params request) = 6
      \<and> ParseHashV env (params_at (params request) 0) ''gm tx hash'' = Inr hashGmTx
      \<and> get_int env (params_at (params request) 1) = Inr nGmTxIndex
      \<and> ParseHashV env (params_at (params request) 2) ''Proposal hash'' = Inr hashProposal
      \<and> get_str env (params_at (params request) 3) = Inr strVote
      \<and> parseVote strVote = Inr nVote
      \<and> get_int64 env (params_at (params request) 4) = Inr nTime
      \<and> get_str env (params_at (params request) 5) = Inr strSig
      \<and> DecodeBase64 env strSig = (vchSig, False)
      \<and> vote = \<lparr> GetVin = NewCTxIn hashGmTx nGmTxIndex, GetProposalHash = hashProposal,
                  GetDirection = nVote, GetTime = nTime, GetVchSig = vchSig \<rparr>"
     and n: "gamemasterman_Find env (prevout (GetVin vote)) = Some pgm
               \<and> \<not> CheckSignature env vote (GetID env (pubKeyGamemaster pgm))"
  show "gmbudgetrawvote env eng strHelp request s = (Inr (VSTR ''Failure to verify signature.''), s)"
    using a n by (simp add: gmbudgetrawvote_def Let_def)
next
  fix pgm
  assume a: "\<not> fHelp request \<and> length (params request) = 6
      \<and> ParseHashV env (params_at (params request) 0) ''gm tx hash'' = Inr hashGmTx
      \<and> get_int env (params_at (params request) 1) = Inr nGmTxIndex
      \<and> ParseHashV env (params_at (params request) 2) ''Proposal hash'' = Inr hashProposal
      \<and> get_str env (params_at (params request) 3) = Inr strVote
      \<and> parseVote strVote = Inr nVote
      \<and> get_int64 env (params_at (params request) 4) = Inr nTime
      \<and> get_str env (params_at (params request) 5) = Inr strSig
      \<and> DecodeBase64 env strSig = (vchSig, False)
      \<and> vote = \<lparr> GetVin = NewCTxIn hashGmTx nGmTxIndex, GetProposalHash = hashProposal,
                  GetDirection = nVote, GetTime = nTime, GetVchSig = vchSig \<rparr>"
     and n: "gamemasterman_Find env (prevout (GetVin vote)) = Some pgm
               \<and> CheckSignature env vote (GetID env (pubKeyGamemaster pgm))"
  show "gmbudgetrawvote env eng strHelp request s =
             (case ProcessProposalVote eng vote s of
                ((fProcessed, state), s1) \<Rightarrow>
                  (Inr (VSTR (if fProcessed then ''Voted successfully''
                              else ''Error voting : '' @ GetRejectReason state @ ''. ''
                                   @ GetDebugMessage state)), s1))"
    using a n by (simp add: gmbudgetrawvote_def Let_def split: prod.split)
qed

theorem rawvote_checked_before_processing_witness:
  "gmbudgetrawvote example_env example_engine ''usage''
     \<lparr> fHelp = False,
       params = [VNUM 42, VNUM 1, VNUM 10, VSTR ''yes'', VNUM 1700000000, VSTR ''7''] \<rparr> example_s
     = (Inr (VSTR ''Failure to find gamemaster in list : 42''), example_s)
   \<and> gmbudgetrawvote example_env example_engine ''usage''
     \<lparr> fHelp = False,
       params = [VNUM 42, VNUM 0, VNUM 10, VSTR ''yes'', VNUM 1700000000, VSTR ''8''] \<rparr> example_s
     = (Inr (VSTR ''Failure to verify signature.''), example_s)
   \<and> gmbudgetrawvote example_env example_engine ''usage''
     \<lparr> fHelp = False,
       params = [VNUM 42, VNUM 0, VNUM 10, VSTR ''yes'', VNUM 1700000000, VSTR ''7''] \<rparr> example_s
     = (Inr (VSTR ''Voted successfully''),
        example_s \<lparr> st_votes :=
          [\<lparr> GetVin = NewCTxIn 42 0, GetProposalHash = 10, GetDirection = VOTE_YES,
             GetTime = 1700000000, GetVchSig = [55] \<rparr>] \<rparr>)"
  using rawvote_checked_before_processing
          [where env = example_env and eng = example_engine and strHelp = "''usage''" and s = example_s
             and request = "\<lparr> fHelp = False,
               params = [VNUM 42, VNUM 1, VNUM 10, VSTR ''yes'', VNUM 1700000000, VSTR ''7''] \<rparr>"
             and hashGmTx = 42 and nGmTxIndex = 1 and hashProposal = 10 and strVote = "''yes''"
             and nVote = VOTE_YES and nTime = 1700000000 and strSig = "''7''" and vchSig = "[55]"
             and vote = "\<lparr> GetVin = NewCTxIn 42 1, GetProposalHash = 10, GetDirection = VOTE_YES,
               GetTime = 1700000000, GetVchSig = [55] \<rparr>", THEN conjunct2]
        rawvote_checked_before_processing
          [where env = example_env and eng = example_engine and strHelp = "''usage''" and s = example_s
             and request = "\<lparr> fHelp = False,
               params = [VNUM 42, VNUM 0, VNUM 10, VSTR ''yes'', VNUM 1700000000, VSTR ''8''] \<rparr>"
             and hashGmTx = 42 and nGmTxIndex = 0 and hashProposal = 10 and strVote = "''yes''"
             and nVote = VOTE_YES and nTime = 1700000000 and strSig = "''8''" and vchSig = "[56]"
             and vote = "\<lparr> GetVin = NewCTxIn 42 0, GetProposalHash = 10, GetDirection = VOTE_YES,
               GetTime = 1700000000, GetVchSig = [56] \<rparr>", THEN conjunct2]
        rawvote_checked_before_processing
          [where env = example_env and eng = example_engine and strHelp = "''usage''" and s = example_s
             and request = "\<lparr> fHelp = False,
               params = [VNUM 42, VNUM 0, VNUM 10, VSTR ''yes'', VNUM 1700000000, VSTR ''7''] \<rparr>"
             and hashGmTx = 42 and nGmTxIndex = 0 and hashProposal = 10 and strVote = "''yes''"
             and nVote = VOTE_YES and nTime = 1700000000 and strSig = "''7''" and vchSig = "[55]"
             and vote = "\<lparr> GetVin = NewCTxIn 42 0, GetProposalHash = 10, GetDirection = VOTE_YES,
               GetTime = 1700000000, GetVchSig = [55] \<rparr>", THEN conjunct2]
  by (simp add: example_simps example_engine_def example_s_def example_proposals_def
        example_NewProposal_def parseVote_def NewCTxIn_def show_nat.simps digit_char_def)

subsection \<open>The status of a finalized budget\<close>

text \<open>
  With queries that do not change the engine, the loop leaves the state as it was, and
  it appends the hashes of the unknown proposals and of the mismatches of the heights
  from \<open>h\<close> to \<open>e\<close>, both included, to the two strings it was given.
\<close>

lemma read_only_payment:
  "status_queries_read_only eng fb \<Longrightarrow> fb_GetBudgetPaymentByBlock eng fb h s = (x, y) \<Longrightarrow>
     y = s \<and> x = fst (fb_GetBudgetPaymentByBlock eng fb h s)"
  by (metis status_queries_read_only_def fst_conv snd_conv)

lemma read_only_proposal:
  "status_queries_read_only eng fb \<Longrightarrow> GetProposal eng h s = (x, y) \<Longrightarrow>
     y = s \<and> x = fst (GetProposal eng h s)"
  by (metis status_queries_read_only_def fst_conv snd_conv)

lemma unknown_proposals_Nil: "unknown_proposals eng fb s [] = []"
  by (simp add: unknown_proposals_def scheduled_payments_def)

lemma payee_amount_mismatches_Nil: "payee_amount_mismatches eng fb s [] = []"
  by (simp add: payee_amount_mismatches_def scheduled_payments_def)

lemma unknown_proposals_Cons:
  "unknown_proposals eng fb s (h # hs) =
     (case fst (fb_GetBudgetPaymentByBlock eng fb h s) of
        None \<Rightarrow> unknown_proposals eng fb s hs
      | Some p \<Rightarrow>
          if fst (GetProposal eng (nProposalHash p) s) = None
          then nProposalHash p # unknown_proposals eng fb s hs
          else unknown_proposals eng fb s hs)"
  by (simp add: unknown_proposals_def scheduled_payments_def
        is_unknown_proposal_def split: option.split)

lemma payee_amount_mismatches_Cons:
  "payee_amount_mismatches eng fb s (h # hs) =
     (case fst (fb_GetBudgetPaymentByBlock eng fb h s) of
        None \<Rightarrow> payee_amount_mismatches eng fb s hs
      | Some p \<Rightarrow>
          (case fst (GetProposal eng (nProposalHash p) s) of
             None \<Rightarrow> payee_amount_mismatches eng fb s hs
           | Some bp \<Rightarrow>
               if GetPayee bp \<noteq> payee p \<or> GetAmount bp \<noteq> nAmount p
               then nProposalHash p # payee_amount_mismatches eng fb s hs
               else payee_amount_mismatches eng fb s hs))"
  by (simp add: payee_amount_mismatches_def scheduled_payments_def
        is_payee_amount_mismatch_def split: option.split)

lemma status_loop_frame:
  "status_queries_read_only eng fb \<Longrightarrow>
     snd (GetFinalizedBudgetStatus_loop env eng fb h e acc s) = s"
proof (induction env eng fb h e acc s rule: GetFinalizedBudgetStatus_loop.induct)
  case (1 env eng fb h e a b s)
  note ro = "1.prems"
  show ?case
  proof (cases "h \<le> e")
    case False
    then show ?thesis by (simp add: GetFinalizedBudgetStatus_loop.simps)
  next
    case True
    obtain po s1 where p: "fb_GetBudgetPaymentByBlock eng fb h s = (po, s1)"
      by (cases "fb_GetBudgetPaymentByBlock eng fb h s")
    from read_only_payment [OF ro p] have s1: "s1 = s" by simp
    show ?thesis
    proof (cases po)
      case None
      with "1.IH"(1) [OF True p [symmetric] None ro] True p s1 show ?thesis
        by (simp add: GetFinalizedBudgetStatus_loop.simps [of env eng fb h e a b s])
    next
      case (Some pay)
      obtain bo s2 where q: "GetProposal eng (nProposalHash pay) s1 = (bo, s2)"
        by (cases "GetProposal eng (nProposalHash pay) s1")
      from read_only_proposal [OF ro q] s1 have s2: "s2 = s" by simp
      show ?thesis
      proof (cases bo)
        case None
        with "1.IH"(2) [OF True p [symmetric] Some q [symmetric] None ro] True p q Some s2
        show ?thesis
          by (simp add: GetFinalizedBudgetStatus_loop.simps [of env eng fb h e a b s])
      next
        case (Some bp)
        show ?thesis
        proof (cases "GetPayee bp \<noteq> payee pay \<or> GetAmount bp \<noteq> nAmount pay")
          case mism: True
          with "1.IH"(3) [OF True p [symmetric] \<open>po = Some pay\<close> q [symmetric] Some mism ro]
               True p q \<open>po = Some pay\<close> Some s2
          show ?thesis
            by (simp add: GetFinalizedBudgetStatus_loop.simps [of env eng fb h e a b s])
        next
          case ok: False
          with "1.IH"(4) [OF True p [symmetric] \<open>po = Some pay\<close> q [symmetric] Some ok ro]
               True p q \<open>po = Some pay\<close> Some s2
          show ?thesis
            by (simp add: GetFinalizedBudgetStatus_loop.simps [of env eng fb h e a b s])
        qed
      qed
    qed
  qed
qed

lemma status_loop_value:
  "status_queries_read_only eng fb \<Longrightarrow>
     fst (GetFinalizedBudgetStatus_loop env eng fb h e (a, b) s) =
       (foldl (add_hash env) a (unknown_proposals eng fb s [h..e]),
        foldl (add_hash env) b (payee_amount_mismatches eng fb s [h..e]))"
proof (induction env eng fb h e "(a, b)" s arbitrary: a b rule: GetFinalizedBudgetStatus_loop.induct)
  case (1 env eng fb h e a b s)
  note ro = "1.prems"
  show ?case
  proof (cases "h \<le> e")
    case False
    then show ?thesis
      by (simp add: GetFinalizedBudgetStatus_loop.simps unknown_proposals_Nil
            payee_amount_mismatches_Nil)
  next
    case True
    then have up: "[h..e] = h # [h + 1..e]" by (rule upto_rec1)
    obtain po s1 where p: "fb_GetBudgetPaymentByBlock eng fb h s = (po, s1)"
      by (cases "fb_GetBudgetPaymentByBlock eng fb h s")
    from read_only_payment [OF ro p] have s1: "s1 = s"
      and po: "fst (fb_GetBudgetPaymentByBlock eng fb h s) = po" by simp_all
    show ?thesis
    proof (cases po)
      case None
      with "1.hyps"(1) [OF True p [symmetric] None ro] True p s1 po show ?thesis
        by (simp add: GetFinalizedBudgetStatus_loop.simps [of env eng fb h e a b s] up
              unknown_proposals_Cons payee_amount_mismatches_Cons)
    next
      case (Some pay)
      obtain bo s2 where q: "GetProposal eng (nProposalHash pay) s1 = (bo, s2)"
        by (cases "GetProposal eng (nProposalHash pay) s1")
      from read_only_proposal [OF ro q] s1 have s2: "s2 = s"
        and bo: "fst (GetProposal eng (nProposalHash pay) s) = bo" by simp_all
      show ?thesis
      proof (cases bo)
        case None
        with "1.hyps"(2) [OF True p [symmetric] Some q [symmetric] None ro] True p q Some s2 po bo
        show ?thesis
          by (simp add: GetFinalizedBudgetStatus_loop.simps [of env eng fb h e a b s] up
                unknown_proposals_Cons payee_amount_mismatches_Cons add_hash_def)
      next
        case (Some bp)
        show ?thesis
        proof (cases "GetPayee bp \<noteq> payee pay \<or> GetAmount bp \<noteq> nAmount pay")
          case mism: True
          with "1.hyps"(3) [OF True p [symmetric] \<open>po = Some pay\<close> q [symmetric] Some mism ro]
               True p q \<open>po = Some pay\<close> Some s2 po bo
          show ?thesis
            by (simp add: GetFinalizedBudgetStatus_loop.simps [of env eng fb h e a b s] up
                  unknown_proposals_Cons payee_amount_mismatches_Cons add_hash_def)
        next
          case ok: False
          with "1.hyps"(4) [OF True p [symmetric] \<open>po = Some pay\<close> q [symmetric] Some ok ro]
               True p q \<open>po = Some pay\<close> Some s2 po bo
          show ?thesis
            by (simp add: GetFinalizedBudgetStatus_loop.simps [of env eng fb h e a b s] up
                  unknown_proposals_Cons payee_amount_mismatches_Cons)
        qed
      qed
    qed
  qed
qed







lemma GetFinalizedBudgetStatus_value:
  assumes ro: "status_queries_read_only eng fb"
      and bs: "nBlockStart = fst (fb_GetBlockStart eng fb s)"
      and be: "nBlockEnd = fst (fb_GetBlockEnd eng fb s)"
  shows "fst (GetFinalizedBudgetStatus env eng fb s) =
           status_text (join_hashes env (unknown_proposals eng fb s [nBlockStart..nBlockEnd]))
                       (join_hashes env (payee_amount_mismatches eng fb s [nBlockStart..nBlockEnd]))"
proof -
  obtain s1 where a: "fb_GetBlockStart eng fb s = (nBlockStart, s1)"
    using bs by (cases "fb_GetBlockStart eng fb s") simp
  have s1: "s1 = s" using ro a by (metis status_queries_read_only_def snd_conv)
  obtain s2 where b: "fb_GetBlockEnd eng fb s = (nBlockEnd, s2)"
    using be by (cases "fb_GetBlockEnd eng fb s") simp
  have s2: "s2 = s" using ro b by (metis status_queries_read_only_def snd_conv)
  obtain r s3 where l: "GetFinalizedBudgetStatus_loop env eng fb nBlockStart nBlockEnd ([], []) s = (r, s3)"
    by (cases "GetFinalizedBudgetStatus_loop env eng fb nBlockStart nBlockEnd ([], []) s")
  have r: "r = (join_hashes env (unknown_proposals eng fb s [nBlockStart..nBlockEnd]),
                join_hashes env (payee_amount_mismatches eng fb s [nBlockStart..nBlockEnd]))"
    using status_loop_value [OF ro, of env nBlockStart nBlockEnd "[]" "[]" s] l
    by (simp add: join_hashes_def)
  show ?thesis
    using a b l r s1 s2 by (simp add: GetFinalizedBudgetStatus_def)
qed






lemma example_engine_read_only: "status_queries_read_only example_engine fb"
  by (simp add: status_queries_read_only_def example_engine_def Let_def)


lemma example_status_facts:
  "fst (fb_GetBlockStart example_engine 0 example_s) = 100"
  "fst (fb_GetBlockEnd example_engine 0 example_s) = 101"
  "unknown_proposals example_engine 0 example_s [100, 101] = []"
  "payee_amount_mismatches example_engine 0 example_s [100, 101] = [11]"
  by (simp_all add: example_engine_def example_s_def example_proposals_def example_NewProposal_def
        unknown_proposals_def payee_amount_mismatches_def scheduled_payments_def
        is_unknown_proposal_def is_payee_amount_mismatch_def Let_def)



text \<open>
  Claim C6. Computing the status of a finalized budget leaves the state of the engine
  as it was, whatever the status is: the function calls the four queries and nothing
  else on the engine, so when these do not change the engine, neither does the
  function. In the witness the status reports a mismatch and the state, with the
  mismatching budget in it, is the one before the call.
\<close>

theorem status_leaves_engine_unchanged:
  assumes ro: "status_queries_read_only eng fb"
  shows "snd (GetFinalizedBudgetStatus env eng fb s) = s"
proof -
  obtain x s1 where a: "fb_GetBlockStart eng fb s = (x, s1)"
    by (cases "fb_GetBlockStart eng fb s")
  have s1: "s1 = s" using ro a by (metis status_queries_read_only_def snd_conv)
  obtain y s2 where b: "fb_GetBlockEnd eng fb s = (y, s2)"
    by (cases "fb_GetBlockEnd eng fb s")
  have s2: "s2 = s" using ro b by (metis status_queries_read_only_def snd_conv)
  obtain r s3 where l: "GetFinalizedBudgetStatus_loop env eng fb x y ([], []) s = (r, s3)"
    by (cases "GetFinalizedBudgetStatus_loop env eng fb x y ([], []) s")
  have "s3 = s" using status_loop_frame [OF ro, of env x y "([], [])" s] l by simp
  with a b l s1 s2 show ?thesis
    by (simp add: GetFinalizedBudgetStatus_def split: prod.split)
qed

theorem status_leaves_engine_unchanged_witness:
  \<open>snd (GetFinalizedBudgetStatus example_env example_engine 0 example_s) = example_s
   \<and> fst (GetFinalizedBudgetStatus example_env example_engine 0 example_s) \<noteq> ''OK''
   \<and> st_budgets (snd (GetFinalizedBudgetStatus example_env example_engine 0 example_s))
       = st_budgets example_s\<close>
  using status_leaves_engine_unchanged [OF example_engine_read_only, of example_env 0 example_s]
        GetFinalizedBudgetStatus_value [OF example_engine_read_only, of 100 0 example_s 101 example_env]
  by (simp add: example_status_facts status_text_def join_hashes_def add_hash_def
        example_env_def show_nat.simps digit_char_def)

end
